theory Spec2Isabelle
  imports Main "HOL-Library.Char_ord" "HOL-Library.List_Lexorder" "HOL-Library.Sublist"
begin

section \<open>Package workspace: constants\<close>

definition CopilotDirName :: string where
  "CopilotDirName = ''copilot''"

definition SummaryFileName :: string where
  "SummaryFileName = ''.workspace''"

definition addonsDirName :: string where
  "addonsDirName = ''addons''"

definition maximumParentDirsToSearch :: nat where
  "maximumParentDirsToSearch = 5"

definition pipelineFileName :: string where
  "pipelineFileName = ''pipeline.yml''"

definition manifestFileName :: string where
  "manifestFileName = ''manifest.yml''"

definition buildspecFileName :: string where
  "buildspecFileName = ''buildspec.yml''"

definition ymlFileExtension :: string where
  "ymlFileExtension = ''.yml''"

definition dockerfileName :: string where
  "dockerfileName = ''Dockerfile''"

section \<open>Paths (Go's path/filepath on cleaned absolute paths)\<close>

text \<open>
  An absolute, cleaned path is held as the list of its components, the root \<open>/\<close> being
  the empty list: \<open>/proj/copilot\<close> is \<open>[''proj'', ''copilot'']\<close>. \<open>os.Getwd\<close> returns
  such a path, and \<open>filepath.Join\<close>, \<open>filepath.Dir\<close> keep paths in this form.
\<close>

type_synonym path = "string list"

type_synonym bytes = string

text \<open>\<open>strings.Split(s, "/")\<close>.\<close>

fun split_sep :: "string \<Rightarrow> string list" where
  "split_sep [] = [[]]"
| "split_sep (c # cs) =
     (if c = CHR ''/'' then [] # split_sep cs
      else (case split_sep cs of [] \<Rightarrow> [[c]] | x # xs \<Rightarrow> (c # x) # xs))"

text \<open>One step of \<open>filepath.Clean\<close> on a rooted path: empty and \<open>.\<close> components vanish,
  \<open>..\<close> removes the last component (and is dropped at the root).\<close>

definition push_elem :: "path \<Rightarrow> string \<Rightarrow> path" where
  "push_elem p c =
     (if c = [] \<or> c = ''.'' then p else if c = ''..'' then butlast p else p @ [c])"

text \<open>\<open>filepath.Join(p, elem...)\<close> for an absolute \<open>p\<close>.\<close>

definition filepath_Join :: "path \<Rightarrow> string list \<Rightarrow> path" where
  "filepath_Join p elem = foldl push_elem p (concat (map split_sep elem))"

text \<open>\<open>filepath.Dir\<close>: the parent; the parent of the root is the root.\<close>

definition filepath_Dir :: "path \<Rightarrow> path" where
  "filepath_Dir p = butlast p"

text \<open>\<open>filepath.Base\<close>: the last component; \<open>/\<close> for the root.\<close>

definition filepath_Base :: "path \<Rightarrow> string" where
  "filepath_Base p = (if p = [] then ''/'' else last p)"

section \<open>The filesystem capability (afero.Afero over the operating system)\<close>

text \<open>
  The filesystem is the injected collaborator of the package. It is modelled as a
  finite table from absolute paths to nodes, with the process working directory
  against which relative names are resolved. A node carries one permission flag:
  for a file, whether the process may read and write it; for a directory, whether
  the process may search, list and modify it. The root always exists.
\<close>

datatype errno = ENOENT | ENOTDIR | EISDIR | EEXIST | EACCES | ENOTEMPTY

datatype node = File bool bytes | Directory bool

record filesystem =
  cwd :: path
  nodes :: "(path \<times> node) list"

definition node_at :: "filesystem \<Rightarrow> path \<Rightarrow> node option" where
  "node_at fs p = (if p = [] then Some (Directory True) else map_of (nodes fs) p)"

text \<open>Path resolution from \<open>cur\<close> through the remaining components.\<close>

fun walk :: "filesystem \<Rightarrow> path \<Rightarrow> string list \<Rightarrow> errno + node" where
  "walk fs cur [] = (case node_at fs cur of None \<Rightarrow> Inl ENOENT | Some n \<Rightarrow> Inr n)"
| "walk fs cur (c # cs) =
     (case node_at fs cur of
        None \<Rightarrow> Inl ENOENT
      | Some (File _ _) \<Rightarrow> Inl ENOTDIR
      | Some (Directory ok) \<Rightarrow> if ok then walk fs (cur @ [c]) cs else Inl EACCES)"

definition Stat :: "filesystem \<Rightarrow> path \<Rightarrow> errno + node" where
  "Stat fs p = walk fs [] p"

text \<open>A relative name is resolved against the process working directory.\<close>

definition abs_path :: "filesystem \<Rightarrow> string \<Rightarrow> path" where
  "abs_path fs rel = filepath_Join (cwd fs) [rel]"

text \<open>\<open>afero.Exists\<close>: true when stat succeeds, false without error when the path does
  not exist, false with the error otherwise.\<close>

definition Exists :: "filesystem \<Rightarrow> path \<Rightarrow> bool \<times> errno option" where
  "Exists fs p =
     (case Stat fs p of
        Inr _ \<Rightarrow> (True, None)
      | Inl e \<Rightarrow> if e = ENOENT then (False, None) else (False, Some e))"

text \<open>\<open>afero.DirExists\<close>: as \<open>Exists\<close>, but a node that is no directory gives false.\<close>

definition DirExists :: "filesystem \<Rightarrow> path \<Rightarrow> bool \<times> errno option" where
  "DirExists fs p =
     (case Stat fs p of
        Inr (Directory _) \<Rightarrow> (True, None)
      | Inr (File _ _) \<Rightarrow> (False, None)
      | Inl e \<Rightarrow> if e = ENOENT then (False, None) else (False, Some e))"

definition ReadFile :: "filesystem \<Rightarrow> path \<Rightarrow> errno + bytes" where
  "ReadFile fs p =
     (case Stat fs p of
        Inl e \<Rightarrow> Inl e
      | Inr (Directory _) \<Rightarrow> Inl EISDIR
      | Inr (File ok d) \<Rightarrow> if ok then Inr d else Inl EACCES)"

definition put_node :: "path \<Rightarrow> node \<Rightarrow> filesystem \<Rightarrow> filesystem" where
  "put_node p n fs = fs\<lparr>nodes := (p, n) # nodes fs\<rparr>"

definition drop_node :: "path \<Rightarrow> filesystem \<Rightarrow> filesystem" where
  "drop_node p fs = fs\<lparr>nodes := filter (\<lambda>e. fst e \<noteq> p) (nodes fs)\<rparr>"

text \<open>\<open>WriteFile\<close> opens with create and truncate: a missing file is created in a
  directory the process may modify, an existing writable file is replaced whole.\<close>

definition WriteFile :: "filesystem \<Rightarrow> path \<Rightarrow> bytes \<Rightarrow> filesystem \<times> errno option" where
  "WriteFile fs p d =
     (if p = [] then (fs, Some EISDIR)
      else case Stat fs (butlast p) of
        Inl e \<Rightarrow> (fs, Some e)
      | Inr (File _ _) \<Rightarrow> (fs, Some ENOTDIR)
      | Inr (Directory ok) \<Rightarrow>
          if \<not> ok then (fs, Some EACCES)
          else (case node_at fs p of
                  None \<Rightarrow> (put_node p (File True d) fs, None)
                | Some (Directory _) \<Rightarrow> (fs, Some EISDIR)
                | Some (File w _) \<Rightarrow>
                    if w then (put_node p (File w d) fs, None) else (fs, Some EACCES)))"

definition Mkdir :: "filesystem \<Rightarrow> path \<Rightarrow> filesystem \<times> errno option" where
  "Mkdir fs p =
     (if p = [] then (fs, Some EEXIST)
      else case Stat fs (butlast p) of
        Inl e \<Rightarrow> (fs, Some e)
      | Inr (File _ _) \<Rightarrow> (fs, Some ENOTDIR)
      | Inr (Directory ok) \<Rightarrow>
          if \<not> ok then (fs, Some EACCES)
          else (case node_at fs p of
                  None \<Rightarrow> (put_node p (Directory True) fs, None)
                | Some _ \<Rightarrow> (fs, Some EEXIST)))"

text \<open>\<open>os.MkdirAll\<close>: nothing to do for a directory, an error for another node;
  otherwise the parent is made first, then the directory itself.\<close>

function MkdirAll :: "filesystem \<Rightarrow> path \<Rightarrow> filesystem \<times> errno option" where
  "MkdirAll fs p =
     (case Stat fs p of
        Inr (Directory _) \<Rightarrow> (fs, None)
      | Inr (File _ _) \<Rightarrow> (fs, Some ENOTDIR)
      | Inl e0 \<Rightarrow>
          if p = [] then (fs, Some e0)
          else (case MkdirAll fs (butlast p) of
                  (fs1, Some e) \<Rightarrow> (fs1, Some e)
                | (fs1, None) \<Rightarrow>
                    (case Mkdir fs1 p of
                       (fs2, None) \<Rightarrow> (fs2, None)
                     | (fs2, Some e) \<Rightarrow>
                         (case Stat fs2 p of
                            Inr (Directory _) \<Rightarrow> (fs2, None)
                          | _ \<Rightarrow> (fs2, Some e)))))"
  by pat_completeness auto
termination
  by (relation "measure (\<lambda>(fs, p). length p)") auto

declare MkdirAll.simps [simp del]

text \<open>The names of the entries of directory \<open>p\<close>, sorted by name as \<open>afero.ReadDir\<close>
  returns them, each with its \<open>IsDir\<close> flag.\<close>

definition child_names :: "filesystem \<Rightarrow> path \<Rightarrow> string list" where
  "child_names fs p =
     sort (remdups (map (\<lambda>e. last (fst e))
       (filter (\<lambda>e. fst e \<noteq> [] \<and> butlast (fst e) = p) (nodes fs))))"

definition is_dir_at :: "filesystem \<Rightarrow> path \<Rightarrow> bool" where
  "is_dir_at fs p = (case node_at fs p of Some (Directory _) \<Rightarrow> True | _ \<Rightarrow> False)"

definition ReadDir :: "filesystem \<Rightarrow> path \<Rightarrow> errno + (string \<times> bool) list" where
  "ReadDir fs p =
     (case Stat fs p of
        Inl e \<Rightarrow> Inl e
      | Inr (File _ _) \<Rightarrow> Inl ENOTDIR
      | Inr (Directory ok) \<Rightarrow>
          if ok then Inr (map (\<lambda>n. (n, is_dir_at fs (p @ [n]))) (child_names fs p))
          else Inl EACCES)"

text \<open>\<open>Remove\<close> deletes a file or an empty directory.\<close>

definition Remove :: "filesystem \<Rightarrow> path \<Rightarrow> filesystem \<times> errno option" where
  "Remove fs p =
     (if p = [] then (fs, Some EACCES)
      else case Stat fs (butlast p) of
        Inl e \<Rightarrow> (fs, Some e)
      | Inr (File _ _) \<Rightarrow> (fs, Some ENOTDIR)
      | Inr (Directory ok) \<Rightarrow>
          if \<not> ok then (fs, Some EACCES)
          else (case node_at fs p of
                  None \<Rightarrow> (fs, Some ENOENT)
                | Some (File _ _) \<Rightarrow> (drop_node p fs, None)
                | Some (Directory _) \<Rightarrow>
                    if child_names fs p = [] then (drop_node p fs, None)
                    else (fs, Some ENOTEMPTY)))"

section \<open>Errors\<close>

text \<open>The context a wrapped error carries (\<open>fmt.Errorf("...: %w", err)\<close>).\<close>

datatype wrap_context =
    CreateDirectoriesForFile path
  | CheckIfManifestFileExists path
  | WriteManifestFile
  | ReadDirectory
  | ReadDirectoryAt path
  | ReadManifestForWorkload string
  | ReadServiceManifestFile string
  | MarshalToBinary string
  | MarshalBinaryAddonContent

datatype error =
    ErrWorkspaceNotFound path string nat
  | ErrNoAssociatedApplication
  | ErrHasExistingApplication string
  | ErrFileExists path
  | ErrDockerfileNotFound path
  | PathError errno
  | CodecError string
  | Wrapped wrap_context error

text \<open>\<open>errors.As(err, &notFound)\<close> for \<open>*errNoAssociatedApplication\<close>: the chain of
  wrapped errors is searched.\<close>

fun as_errNoAssociatedApplication :: "error \<Rightarrow> bool" where
  "as_errNoAssociatedApplication ErrNoAssociatedApplication = True"
| "as_errNoAssociatedApplication (Wrapped _ e) = as_errNoAssociatedApplication e"
| "as_errNoAssociatedApplication _ = False"

section \<open>The workspace\<close>

text \<open>The \<open>Workspace\<close> struct. The field \<open>copilotDir\<close> is a string in the source, empty
  until the directory is found: \<open>None\<close> is the empty string.\<close>

record Workspace =
  workingDir :: path
  copilotDir :: "path option"

text \<open>The loop of \<open>CopilotDirPath\<close>, with the number of tries left.\<close>

fun searchParents :: "filesystem \<Rightarrow> path \<Rightarrow> nat \<Rightarrow> errno + path option" where
  "searchParents fs searchingDir 0 = Inr None"
| "searchParents fs searchingDir (Suc n) =
     (let currentDirectoryPath = filepath_Join searchingDir [CopilotDirName] in
      case DirExists fs currentDirectoryPath of
        (_, Some e) \<Rightarrow> Inl e
      | (True, None) \<Rightarrow> Inr (Some currentDirectoryPath)
      | (False, None) \<Rightarrow> searchParents fs (filepath_Dir searchingDir) n)"

definition CopilotDirPath :: "Workspace \<Rightarrow> filesystem \<Rightarrow> Workspace \<times> (error + path)" where
  "CopilotDirPath ws fs =
     (case copilotDir ws of
        Some p \<Rightarrow> (ws, Inr p)
      | None \<Rightarrow>
          if filepath_Base (workingDir ws) = CopilotDirName
          then (ws\<lparr>copilotDir := Some (workingDir ws)\<rparr>, Inr (workingDir ws))
          else (case searchParents fs (workingDir ws) maximumParentDirsToSearch of
                  Inl e \<Rightarrow> (ws, Inl (PathError e))
                | Inr (Some p) \<Rightarrow> (ws\<lparr>copilotDir := Some p\<rparr>, Inr p)
                | Inr None \<Rightarrow>
                    (ws, Inl (ErrWorkspaceNotFound (workingDir ws) CopilotDirName
                                maximumParentDirsToSearch))))"

section \<open>External codecs\<close>

text \<open>The \<open>Summary\<close> struct.\<close>

record Summary =
  Application :: string

text \<open>
  The YAML library is a collaborator outside the package. Its three uses are taken
  as parameters: \<open>yaml.Marshal\<close> of a summary, \<open>yaml.Unmarshal\<close> into a summary, and
  \<open>yaml.Unmarshal\<close> into the one-field struct that holds a manifest's \<open>type\<close>.
\<close>

record yaml =
  Marshal_Summary :: "Summary \<Rightarrow> error + bytes"
  Unmarshal_Summary :: "bytes \<Rightarrow> error + Summary"
  Unmarshal_Type :: "bytes \<Rightarrow> error + string"

text \<open>An \<open>encoding.BinaryMarshaler\<close> is held as what its \<open>MarshalBinary\<close> returns.\<close>

type_synonym BinaryMarshaler = "error + bytes"

section \<open>Summary store\<close>

definition summaryPath :: "Workspace \<Rightarrow> filesystem \<Rightarrow> Workspace \<times> (error + path)" where
  "summaryPath ws fs =
     (case CopilotDirPath ws fs of
        (ws1, Inl e) \<Rightarrow> (ws1, Inl e)
      | (ws1, Inr copilotPath) \<Rightarrow> (ws1, Inr (filepath_Join copilotPath [SummaryFileName])))"

definition Summary :: "yaml \<Rightarrow> Workspace \<Rightarrow> filesystem \<Rightarrow> Workspace \<times> (error + Summary)" where
  "Summary y ws fs =
     (case summaryPath ws fs of
        (ws1, Inl e) \<Rightarrow> (ws1, Inl e)
      | (ws1, Inr sp) \<Rightarrow>
          (let summaryFileExists = fst (Exists fs sp) in
           if summaryFileExists
           then (case ReadFile fs sp of
                   Inl e \<Rightarrow> (ws1, Inl (PathError e))
                 | Inr v \<Rightarrow> (ws1, Unmarshal_Summary y v))
           else (ws1, Inl ErrNoAssociatedApplication)))"

definition writeSummary ::
  "yaml \<Rightarrow> Workspace \<Rightarrow> filesystem \<Rightarrow> string \<Rightarrow> Workspace \<times> filesystem \<times> error option" where
  "writeSummary y ws fs appName =
     (case summaryPath ws fs of
        (ws1, Inl e) \<Rightarrow> (ws1, fs, Some e)
      | (ws1, Inr sp) \<Rightarrow>
          (case Marshal_Summary y \<lparr>Application = appName\<rparr> of
             Inl e \<Rightarrow> (ws1, fs, Some e)
           | Inr serialized \<Rightarrow>
               (case WriteFile fs sp serialized of
                  (fs1, None) \<Rightarrow> (ws1, fs1, None)
                | (fs1, Some e) \<Rightarrow> (ws1, fs1, Some (PathError e)))))"

text \<open>\<open>createCopilotDir\<close> makes \<open>copilot\<close> under the process working directory (the
  name is relative) unless a copilot directory is found already.\<close>

definition createCopilotDir ::
  "Workspace \<Rightarrow> filesystem \<Rightarrow> Workspace \<times> filesystem \<times> error option" where
  "createCopilotDir ws fs =
     (case CopilotDirPath ws fs of
        (ws1, Inr existingWorkspace) \<Rightarrow> (ws1, fs, None)
      | (ws1, Inl _) \<Rightarrow>
          (case Mkdir fs (abs_path fs CopilotDirName) of
             (fs1, None) \<Rightarrow> (ws1, fs1, None)
           | (fs1, Some e) \<Rightarrow> (ws1, fs1, Some (PathError e))))"

definition Create ::
  "yaml \<Rightarrow> Workspace \<Rightarrow> filesystem \<Rightarrow> string \<Rightarrow> Workspace \<times> filesystem \<times> error option" where
  "Create y ws fs appName =
     (case createCopilotDir ws fs of
        (ws1, fs1, Some e) \<Rightarrow> (ws1, fs1, Some e)
      | (ws1, fs1, None) \<Rightarrow>
          (case Summary y ws1 fs1 of
             (ws2, Inr summary) \<Rightarrow>
               if Application summary \<noteq> appName
               then (ws2, fs1, Some (ErrHasExistingApplication (Application summary)))
               else (ws2, fs1, None)
           | (ws2, Inl err) \<Rightarrow>
               if as_errNoAssociatedApplication err then writeSummary y ws2 fs1 appName
               else (ws2, fs1, Some err)))"

text \<open>\<open>filepath.Join\<close> of two plain relative names.\<close>

definition rel_Join :: "string \<Rightarrow> string \<Rightarrow> string" where
  "rel_Join a b = a @ ''/'' @ b"

definition DeleteWorkspaceFile :: "Workspace \<Rightarrow> filesystem \<Rightarrow> filesystem \<times> error option" where
  "DeleteWorkspaceFile ws fs =
     (case Remove fs (abs_path fs (rel_Join CopilotDirName SummaryFileName)) of
        (fs1, None) \<Rightarrow> (fs1, None)
      | (fs1, Some e) \<Rightarrow> (fs1, Some (PathError e)))"

section \<open>Manifest and addon store\<close>

definition "write" ::
  "Workspace \<Rightarrow> filesystem \<Rightarrow> bytes \<Rightarrow> string list \<Rightarrow> Workspace \<times> filesystem \<times> (error + path)" where
  "write ws fs d elem =
     (case CopilotDirPath ws fs of
        (ws1, Inl e) \<Rightarrow> (ws1, fs, Inl e)
      | (ws1, Inr copilotPath) \<Rightarrow>
          (let filename = filepath_Join copilotPath elem in
           case MkdirAll fs (filepath_Dir filename) of
             (fs1, Some e) \<Rightarrow>
               (ws1, fs1, Inl (Wrapped (CreateDirectoriesForFile filename) (PathError e)))
           | (fs1, None) \<Rightarrow>
               (case Exists fs1 filename of
                  (_, Some e) \<Rightarrow>
                    (ws1, fs1, Inl (Wrapped (CheckIfManifestFileExists filename) (PathError e)))
                | (True, None) \<Rightarrow> (ws1, fs1, Inl (ErrFileExists filename))
                | (False, None) \<Rightarrow>
                    (case WriteFile fs1 filename d of
                       (fs2, Some e) \<Rightarrow> (ws1, fs2, Inl (Wrapped WriteManifestFile (PathError e)))
                     | (fs2, None) \<Rightarrow> (ws1, fs2, Inr filename)))))"

definition read ::
  "Workspace \<Rightarrow> filesystem \<Rightarrow> string list \<Rightarrow> Workspace \<times> (error + bytes)" where
  "read ws fs elem =
     (case CopilotDirPath ws fs of
        (ws1, Inl e) \<Rightarrow> (ws1, Inl e)
      | (ws1, Inr copilotPath) \<Rightarrow>
          (case ReadFile fs (filepath_Join copilotPath elem) of
             Inl e \<Rightarrow> (ws1, Inl (PathError e))
           | Inr d \<Rightarrow> (ws1, Inr d)))"

definition readWorkloadManifest ::
  "Workspace \<Rightarrow> filesystem \<Rightarrow> string \<Rightarrow> Workspace \<times> (error + bytes)" where
  "readWorkloadManifest ws fs name = read ws fs [name, manifestFileName]"

definition ReadServiceManifest ::
  "Workspace \<Rightarrow> filesystem \<Rightarrow> string \<Rightarrow> Workspace \<times> (error + bytes)" where
  "ReadServiceManifest ws fs name =
     (case readWorkloadManifest ws fs name of
        (ws1, Inl e) \<Rightarrow> (ws1, Inl (Wrapped (ReadServiceManifestFile name) e))
      | (ws1, Inr mf) \<Rightarrow> (ws1, Inr mf))"

definition readWorkloadType :: "yaml \<Rightarrow> bytes \<Rightarrow> error + string" where
  "readWorkloadType y dat = Unmarshal_Type y dat"

definition WriteServiceManifest ::
  "Workspace \<Rightarrow> filesystem \<Rightarrow> BinaryMarshaler \<Rightarrow> string \<Rightarrow>
     Workspace \<times> filesystem \<times> (error + path)" where
  "WriteServiceManifest ws fs marshaler name =
     (case marshaler of
        Inl e \<Rightarrow> (ws, fs, Inl (Wrapped (MarshalToBinary name) e))
      | Inr d \<Rightarrow> write ws fs d [name, manifestFileName])"

definition ReadAddon ::
  "Workspace \<Rightarrow> filesystem \<Rightarrow> string \<Rightarrow> string \<Rightarrow> Workspace \<times> (error + bytes)" where
  "ReadAddon ws fs svc fname = read ws fs [svc, addonsDirName, fname]"

definition WriteAddon ::
  "Workspace \<Rightarrow> filesystem \<Rightarrow> BinaryMarshaler \<Rightarrow> string \<Rightarrow> string \<Rightarrow>
     Workspace \<times> filesystem \<times> (error + path)" where
  "WriteAddon ws fs content svc name =
     (case content of
        Inl e \<Rightarrow> (ws, fs, Inl (Wrapped MarshalBinaryAddonContent e))
      | Inr d \<Rightarrow>
          (let fname = name @ ymlFileExtension in
           write ws fs d [svc, addonsDirName, fname]))"

text \<open>The loop of \<open>workloadNames\<close> over the entries of the copilot directory.\<close>

fun workloadNames_loop ::
  "yaml \<Rightarrow> (string \<Rightarrow> bool) \<Rightarrow> filesystem \<Rightarrow> path \<Rightarrow> Workspace \<Rightarrow> (string \<times> bool) list \<Rightarrow>
     string list \<Rightarrow> Workspace \<times> (error + string list)" where
  "workloadNames_loop y match fs copilotPath ws [] names = (ws, Inr names)"
| "workloadNames_loop y match fs copilotPath ws (f # files) names =
     (if \<not> snd f then workloadNames_loop y match fs copilotPath ws files names
      else if \<not> fst (Exists fs (filepath_Join copilotPath [fst f, manifestFileName]))
      then workloadNames_loop y match fs copilotPath ws files names
      else (case readWorkloadManifest ws fs (fst f) of
              (ws1, Inl e) \<Rightarrow> (ws1, Inl (Wrapped (ReadManifestForWorkload (fst f)) e))
            | (ws1, Inr manifestBytes) \<Rightarrow>
                (case readWorkloadType y manifestBytes of
                   Inl e \<Rightarrow> (ws1, Inl e)
                 | Inr wlType \<Rightarrow>
                     if match wlType
                     then workloadNames_loop y match fs copilotPath ws1 files (names @ [fst f])
                     else workloadNames_loop y match fs copilotPath ws1 files names)))"

definition workloadNames ::
  "yaml \<Rightarrow> Workspace \<Rightarrow> filesystem \<Rightarrow> (string \<Rightarrow> bool) \<Rightarrow> Workspace \<times> (error + string list)" where
  "workloadNames y ws fs match =
     (case CopilotDirPath ws fs of
        (ws1, Inl e) \<Rightarrow> (ws1, Inl e)
      | (ws1, Inr copilotPath) \<Rightarrow>
          (case ReadDir fs copilotPath of
             Inl e \<Rightarrow> (ws1, Inl (Wrapped (ReadDirectoryAt copilotPath) (PathError e)))
           | Inr files \<Rightarrow> workloadNames_loop y match fs copilotPath ws1 files []))"

text \<open>\<open>ServiceNames\<close> and \<open>JobNames\<close>; the lists \<open>manifest.ServiceTypes\<close> and
  \<open>manifest.JobTypes\<close> of the manifest package are parameters.\<close>

definition ServiceNames ::
  "yaml \<Rightarrow> string list \<Rightarrow> Workspace \<Rightarrow> filesystem \<Rightarrow> Workspace \<times> (error + string list)" where
  "ServiceNames y ServiceTypes ws fs = workloadNames y ws fs (\<lambda>wlType. List.member ServiceTypes wlType)"

definition JobNames ::
  "yaml \<Rightarrow> string list \<Rightarrow> Workspace \<Rightarrow> filesystem \<Rightarrow> Workspace \<times> (error + string list)" where
  "JobNames y JobTypes ws fs = workloadNames y ws fs (\<lambda>wlType. List.member JobTypes wlType)"

section \<open>Dockerfile discovery\<close>

text \<open>\<open>filepath.Dir\<close> of a relative name: \<open>.\<close> when the name holds no separator (as the
  name of every directory entry), the text before the last separator otherwise.\<close>

definition rel_Dir :: "string \<Rightarrow> string" where
  "rel_Dir name =
     (if CHR ''/'' \<notin> set name then ''.''
      else (let d = rev (drop 1 (dropWhile (\<lambda>c. c \<noteq> CHR ''/'') (rev name)))
            in if d = [] then ''/'' else d))"

text \<open>The inner loop of \<open>ListDockerfiles\<close>, over the entries of one sub-directory.\<close>

fun scanSubFiles :: "(string \<times> bool) list \<Rightarrow> string \<Rightarrow> string list \<Rightarrow> string list" where
  "scanSubFiles [] wdName directories = directories"
| "scanSubFiles (f # subFiles) wdName directories =
     (if snd f then scanSubFiles subFiles wdName directories
      else if fst f = dockerfileName then scanSubFiles subFiles wdName (directories @ [wdName])
      else scanSubFiles subFiles wdName directories)"

text \<open>The outer loop, over the entries of the working directory. A sub-directory is
  read by its bare name, which the filesystem resolves against the process working
  directory.\<close>

fun scanWdFiles ::
  "filesystem \<Rightarrow> (string \<times> bool) list \<Rightarrow> string list \<Rightarrow> error + string list" where
  "scanWdFiles fs [] directories = Inr directories"
| "scanWdFiles fs (wdFile # wdFiles) directories =
     (if \<not> snd wdFile
      then (if fst wdFile = dockerfileName
            then scanWdFiles fs wdFiles (directories @ [rel_Dir (fst wdFile)])
            else scanWdFiles fs wdFiles directories)
      else (case ReadDir fs (abs_path fs (fst wdFile)) of
              Inl e \<Rightarrow> Inl (Wrapped ReadDirectory (PathError e))
            | Inr subFiles \<Rightarrow>
                scanWdFiles fs wdFiles (scanSubFiles subFiles (fst wdFile) directories)))"

definition ListDockerfiles :: "Workspace \<Rightarrow> filesystem \<Rightarrow> error + string list" where
  "ListDockerfiles ws fs =
     (case ReadDir fs (workingDir ws) of
        Inl e \<Rightarrow> Inl (Wrapped ReadDirectory (PathError e))
      | Inr wdFiles \<Rightarrow>
          (case scanWdFiles fs wdFiles [] of
             Inl e \<Rightarrow> Inl e
           | Inr directories \<Rightarrow>
               if length directories = 0 then Inl (ErrDockerfileNotFound (workingDir ws))
               else Inr (map (\<lambda>dir. dir @ ''/'' @ dockerfileName) (sort directories))))"

section \<open>Notions used in the properties\<close>

text \<open>What is assumed of the YAML codec for a project name: when the summary with
  that name can be marshalled, unmarshalling the bytes gives the summary back.\<close>

definition codec_roundtrip :: "yaml \<Rightarrow> string \<Rightarrow> bool" where
  "codec_roundtrip y appName =
     (case Marshal_Summary y \<lparr>Application = appName\<rparr> of
        Inl _ \<Rightarrow> True
      | Inr b \<Rightarrow> Unmarshal_Summary y b = Inr \<lparr>Application = appName\<rparr>)"

text \<open>The ancestor \<open>d\<close> levels above a directory, and the marker directory planted
  there: the sub-directory \<open>copilot\<close> of that ancestor.\<close>

definition ancestor :: "nat \<Rightarrow> path \<Rightarrow> path" where
  "ancestor d p = (filepath_Dir ^^ d) p"

definition marker_at :: "nat \<Rightarrow> path \<Rightarrow> path" where
  "marker_at d wd = filepath_Join (ancestor d wd) [CopilotDirName]"

text \<open>A table is well formed when every node lies in a directory of the table.\<close>

definition wf_fs :: "filesystem \<Rightarrow> bool" where
  "wf_fs fs = list_all (\<lambda>e. fst e = [] \<or> is_dir_at fs (butlast (fst e))) (nodes fs)"

text \<open>A workspace as \<open>New\<close> returns it, in a working directory the process may modify,
  with nothing named \<open>copilot\<close> in it and no copilot directory in the four ancestors
  the search looks at.\<close>

definition uninitialised :: "Workspace \<Rightarrow> filesystem \<Rightarrow> bool" where
  "uninitialised ws fs =
     (copilotDir ws = None \<and> cwd fs = workingDir ws \<and> wf_fs fs \<and>
      filepath_Base (workingDir ws) \<noteq> CopilotDirName \<and>
      Stat fs (workingDir ws) = Inr (Directory True) \<and>
      Exists fs (marker_at 0 (workingDir ws)) = (False, None) \<and>
      list_all (\<lambda>k. DirExists fs (marker_at k (workingDir ws)) = (False, None)) [1, 2, 3, 4])"

text \<open>What the manifest of a sub-directory \<open>name\<close> of the marker directory amounts to,
  in the words of the specification: no entity (the existence probe does not report
  true), a manifest that cannot be read, a manifest that cannot be decoded, or a
  manifest with a type.\<close>

datatype manifest_status = NotAnEntity | ReadFails errno | DecodeFails error | HasType string

definition manifest_status_of :: "yaml \<Rightarrow> filesystem \<Rightarrow> path \<Rightarrow> string \<Rightarrow> manifest_status" where
  "manifest_status_of y fs root name =
     (let mf = filepath_Join root [name, manifestFileName] in
      if \<not> fst (Exists fs mf) then NotAnEntity
      else (case ReadFile fs mf of
              Inl e \<Rightarrow> ReadFails e
            | Inr b \<Rightarrow> (case Unmarshal_Type y b of Inl e \<Rightarrow> DecodeFails e | Inr t \<Rightarrow> HasType t)))"

text \<open>A sub-directory is enumerated when its manifest has a type the predicate accepts.\<close>

definition accepted :: "yaml \<Rightarrow> (string \<Rightarrow> bool) \<Rightarrow> filesystem \<Rightarrow> path \<Rightarrow> string \<Rightarrow> bool" where
  "accepted y match fs root name =
     (case manifest_status_of y fs root name of HasType t \<Rightarrow> match t | _ \<Rightarrow> False)"

text \<open>A directory entry does not stop the enumeration when it is no directory, no
  entity, or an entity with a type.\<close>

definition entry_fine :: "yaml \<Rightarrow> filesystem \<Rightarrow> path \<Rightarrow> string \<times> bool \<Rightarrow> bool" where
  "entry_fine y fs root f =
     (if snd f
      then (case manifest_status_of y fs root (fst f) of
              ReadFails _ \<Rightarrow> False | DecodeFails _ \<Rightarrow> False | _ \<Rightarrow> True)
      else True)"

text \<open>A plain name, as every directory entry has: not empty, not \<open>.\<close> or \<open>..\<close>, no
  separator in it.\<close>

definition plain_name :: "string \<Rightarrow> bool" where
  "plain_name n = (n \<noteq> [] \<and> n \<noteq> ''.'' \<and> n \<noteq> ''..'' \<and> CHR ''/'' \<notin> set n)"

text \<open>The directories that qualify, in the words of the specification: the working
  directory itself (written \<open>.\<close>) when its listing \<open>wdFiles\<close> holds a regular file named
  \<open>Dockerfile\<close>, and every immediate sub-directory whose own listing holds one.\<close>

definition qualifying_dirs :: "filesystem \<Rightarrow> path \<Rightarrow> (string \<times> bool) list \<Rightarrow> string list" where
  "qualifying_dirs fs wd wdFiles =
     concat (map (\<lambda>f.
       if snd f
       then (case ReadDir fs (wd @ [fst f]) of
               Inr sub \<Rightarrow> if (dockerfileName, False) \<in> set sub then [fst f] else []
             | Inl _ \<Rightarrow> [])
       else if fst f = dockerfileName then [''.''] else []) wdFiles)"

text \<open>An entry of the working directory does not stop the scan when it is no directory
  or a directory that can be listed.\<close>

definition sub_listable :: "filesystem \<Rightarrow> path \<Rightarrow> string \<times> bool \<Rightarrow> bool" where
  "sub_listable fs wd f =
     (if snd f then (case ReadDir fs (wd @ [fst f]) of Inr _ \<Rightarrow> True | Inl _ \<Rightarrow> False)
      else True)"

section \<open>Example states\<close>

text \<open>A small stand-in for the YAML codec: one \<open>key: value\<close> line.\<close>

definition line_yaml :: yaml where
  "line_yaml =
     \<lparr>Marshal_Summary = (\<lambda>s. Inr (''application: '' @ Application s)),
      Unmarshal_Summary = (\<lambda>b. if take 13 b = ''application: ''
                                 then Inr \<lparr>Application = drop 13 b\<rparr>
                                 else Inl (CodecError ''yaml: unmarshal errors'')),
      Unmarshal_Type = (\<lambda>b. if take 6 b = ''type: '' then Inr (drop 6 b)
                              else Inl (CodecError ''yaml: unmarshal errors''))\<rparr>"

text \<open>A project \<open>/proj\<close> with its copilot directory, a summary and two workloads; the
  command runs in \<open>/proj/svc\<close>.\<close>

definition proj_fs :: filesystem where
  "proj_fs =
     \<lparr>cwd = [''proj'', ''svc''],
      nodes =
        [([''proj''], Directory True),
         ([''proj'', ''svc''], Directory True),
         ([''proj'', ''copilot''], Directory True),
         ([''proj'', ''copilot'', ''.workspace''], File True ''application: acme''),
         ([''proj'', ''copilot'', ''api''], Directory True),
         ([''proj'', ''copilot'', ''api'', ''manifest.yml''], File True ''type: web''),
         ([''proj'', ''copilot'', ''cron''], Directory True),
         ([''proj'', ''copilot'', ''cron'', ''manifest.yml''], File True ''type: job'')]\<rparr>"

definition svc_ws :: Workspace where
  "svc_ws = \<lparr>workingDir = [''proj'', ''svc''], copilotDir = None\<rparr>"

definition svc_ws_found :: Workspace where
  "svc_ws_found = \<lparr>workingDir = [''proj'', ''svc''], copilotDir = Some [''proj'', ''copilot'']\<rparr>"

text \<open>The same tree after everything but the root has been removed.\<close>

definition bare_fs :: filesystem where
  "bare_fs = \<lparr>cwd = [], nodes = []\<rparr>"

text \<open>A project whose copilot directory the process may not search.\<close>

definition locked_fs :: filesystem where
  "locked_fs =
     \<lparr>cwd = [''proj''],
      nodes =
        [([''proj''], Directory True),
         ([''proj'', ''copilot''], Directory False),
         ([''proj'', ''copilot'', ''.workspace''], File True ''application: acme'')]\<rparr>"

definition proj_ws :: Workspace where
  "proj_ws = \<lparr>workingDir = [''proj''], copilotDir = None\<rparr>"

definition proj_ws_found :: Workspace where
  "proj_ws_found = \<lparr>workingDir = [''proj''], copilotDir = Some [''proj'', ''copilot'']\<rparr>"




text \<open>The project after the manifest of a new service \<open>front\<close> has been written, and
  after an addon \<open>policy.yml\<close> of the service \<open>api\<close> has been written.\<close>

definition front_fs :: filesystem where
  "front_fs =
     put_node [''proj'', ''copilot'', ''front'', ''manifest.yml''] (File True ''type: web'')
       (put_node [''proj'', ''copilot'', ''front''] (Directory True) proj_fs)"

definition policy_fs :: filesystem where
  "policy_fs =
     put_node [''proj'', ''copilot'', ''api'', ''addons'', ''policy.yml''] (File True ''Resources: {}'')
       (put_node [''proj'', ''copilot'', ''api'', ''addons''] (Directory True) proj_fs)"

text \<open>A new project directory \<open>/proj\<close>, and the same after \<open>Create\<close> for \<open>acme\<close>.\<close>

definition new_fs :: filesystem where
  "new_fs = \<lparr>cwd = [''proj''], nodes = [([''proj''], Directory True)]\<rparr>"

definition acme_fs :: filesystem where
  "acme_fs =
     put_node [''proj'', ''copilot'', ''.workspace''] (File True ''application: acme'')
       (put_node [''proj'', ''copilot''] (Directory True) new_fs)"

text \<open>A marker directory with two workloads, a directory without manifest, a
  directory the process may not search, and a plain file; the same with a workload
  whose manifest is no YAML, and with a workload whose manifest the process may not
  read.\<close>

definition mixed_fs :: filesystem where
  "mixed_fs =
     \<lparr>cwd = [''proj'', ''svc''],
      nodes =
        [([''proj''], Directory True),
         ([''proj'', ''svc''], Directory True),
         ([''proj'', ''copilot''], Directory True),
         ([''proj'', ''copilot'', ''.workspace''], File True ''application: acme''),
         ([''proj'', ''copilot'', ''pipeline.yml''], File True ''name: pipeline''),
         ([''proj'', ''copilot'', ''api''], Directory True),
         ([''proj'', ''copilot'', ''api'', ''manifest.yml''], File True ''type: web''),
         ([''proj'', ''copilot'', ''cron''], Directory True),
         ([''proj'', ''copilot'', ''cron'', ''manifest.yml''], File True ''type: job''),
         ([''proj'', ''copilot'', ''docs''], Directory True),
         ([''proj'', ''copilot'', ''vault''], Directory False),
         ([''proj'', ''copilot'', ''vault'', ''manifest.yml''], File True ''type: web'')]\<rparr>"

definition corrupt_fs :: filesystem where
  "corrupt_fs =
     put_node [''proj'', ''copilot'', ''bad'', ''manifest.yml''] (File True ''<html>'')
       (put_node [''proj'', ''copilot'', ''bad''] (Directory True) mixed_fs)"

definition unread_fs :: filesystem where
  "unread_fs =
     put_node [''proj'', ''copilot'', ''db'', ''manifest.yml''] (File False ''type: web'')
       (put_node [''proj'', ''copilot'', ''db''] (Directory True) mixed_fs)"

text \<open>An application directory \<open>/app\<close> with Dockerfiles at the top, one level below and
  two levels below; one without any Dockerfile; and one without any Dockerfile and
  with a sub-directory the process may not list.\<close>

definition app_ws :: Workspace where
  "app_ws = \<lparr>workingDir = [''app''], copilotDir = None\<rparr>"

definition docker_fs :: filesystem where
  "docker_fs =
     \<lparr>cwd = [''app''],
      nodes =
        [([''app''], Directory True),
         ([''app'', ''Dockerfile''], File True ''FROM scratch''),
         ([''app'', ''sub1''], Directory True),
         ([''app'', ''sub1'', ''Dockerfile''], File True ''FROM scratch''),
         ([''app'', ''sub2''], Directory True),
         ([''app'', ''sub2'', ''deep''], Directory True),
         ([''app'', ''sub2'', ''deep'', ''Dockerfile''], File True ''FROM scratch''),
         ([''app'', ''a''], Directory True),
         ([''app'', ''a'', ''Dockerfile''], File True ''FROM scratch''),
         ([''app'', ''a-b''], Directory True),
         ([''app'', ''a-b'', ''Dockerfile''], File True ''FROM scratch'')]\<rparr>"

definition plain_fs :: filesystem where
  "plain_fs =
     \<lparr>cwd = [''app''],
      nodes =
        [([''app''], Directory True),
         ([''app'', ''main.go''], File True ''package main''),
         ([''app'', ''src''], Directory True),
         ([''app'', ''src'', ''lib.go''], File True ''package lib'')]\<rparr>"

definition secret_fs :: filesystem where
  "secret_fs = put_node [''app'', ''secret''] (Directory False) plain_fs"


definition gone_fs :: filesystem where
  "gone_fs = \<lparr>cwd = [''app''], nodes = []\<rparr>"



text \<open>A codec that marshals every summary and does not read back a value holding a
  tab, as the YAML library does for the name made of a tab and a line feed; and the
  new project directory after \<open>Create\<close> for that name.\<close>

definition tab_yaml :: yaml where
  "tab_yaml =
     \<lparr>Marshal_Summary = (\<lambda>s. Inr (''application: '' @ Application s)),
      Unmarshal_Summary = (\<lambda>b. if CHR 0x09 \<in> set b
                                 then Inl (CodecError ''yaml: found character that cannot start any token'')
                                 else if take 13 b = ''application: ''
                                 then Inr \<lparr>Application = drop 13 b\<rparr>
                                 else Inl (CodecError ''yaml: unmarshal errors'')),
      Unmarshal_Type = (\<lambda>b. if take 6 b = ''type: '' then Inr (drop 6 b)
                              else Inl (CodecError ''yaml: unmarshal errors''))\<rparr>"

definition tab_name :: string where
  "tab_name = [CHR 0x09, CHR 0x0A]"

definition tab_fs :: filesystem where
  "tab_fs =
     put_node [''proj'', ''copilot'', ''.workspace''] (File True (''application: '' @ tab_name))
       (put_node [''proj'', ''copilot''] (Directory True) new_fs)"

section \<open>Path resolution\<close>

lemma walk_snoc:
  "walk fs cur (cs @ [c]) =
     (case walk fs cur cs of
        Inl e \<Rightarrow> Inl e
      | Inr (File _ _) \<Rightarrow> Inl ENOTDIR
      | Inr (Directory ok) \<Rightarrow>
          if ok then (case node_at fs (cur @ cs @ [c]) of None \<Rightarrow> Inl ENOENT | Some n \<Rightarrow> Inr n)
          else Inl EACCES)"
  by (induction cs arbitrary: cur) (auto split: option.splits node.splits sum.splits)

lemma Stat_snoc:
  "Stat fs (p @ [c]) =
     (case Stat fs p of
        Inl e \<Rightarrow> Inl e
      | Inr (File _ _) \<Rightarrow> Inl ENOTDIR
      | Inr (Directory ok) \<Rightarrow>
          if ok then (case node_at fs (p @ [c]) of None \<Rightarrow> Inl ENOENT | Some n \<Rightarrow> Inr n)
          else Inl EACCES)"
  by (simp add: Stat_def walk_snoc split: sum.splits node.splits)

section \<open>The marker directory is found once\<close>

lemma CopilotDirPath_cached:
  "copilotDir ws = Some p \<Longrightarrow> CopilotDirPath ws fs = (ws, Inr p)"
  by (simp add: CopilotDirPath_def)

lemma CopilotDirPath_Inr:
  assumes "CopilotDirPath ws fs = (ws1, Inr p)"
  shows "copilotDir ws1 = Some p \<and> workingDir ws1 = workingDir ws"
proof (cases "copilotDir ws")
  case (Some q)
  with assms show ?thesis by (simp add: CopilotDirPath_def)
next
  case None
  show ?thesis
  proof (cases "filepath_Base (workingDir ws) = CopilotDirName")
    case True
    with None assms show ?thesis by (auto simp: CopilotDirPath_def)
  next
    case False
    show ?thesis
    proof (cases "searchParents fs (workingDir ws) maximumParentDirsToSearch")
      case (Inl e)
      with None False assms show ?thesis by (simp add: CopilotDirPath_def)
    next
      case (Inr r)
      with None False assms show ?thesis by (cases r) (auto simp: CopilotDirPath_def)
    qed
  qed
qed

lemma CopilotDirPath_again:
  "CopilotDirPath ws fs = (ws1, Inr p) \<Longrightarrow> CopilotDirPath ws1 fs' = (ws1, Inr p)"
  using CopilotDirPath_Inr [of ws fs ws1 p] CopilotDirPath_cached [of ws1 p fs'] by simp

text \<open>
  C8. Once \<open>CopilotDirPath\<close> has succeeded, every later call on the resulting workspace
  returns the same path and leaves the workspace as it is, whatever the filesystem
  \<open>fs'\<close> has become: the answer does not depend on the filesystem, so no search is made
  and the cached field is not written again.
\<close>

theorem CopilotDirPath_memoized:
  "CopilotDirPath ws fs = (ws1, Inr p) \<Longrightarrow> CopilotDirPath ws1 fs' = (ws1, Inr p)"
  using CopilotDirPath_Inr [of ws fs ws1 p] CopilotDirPath_cached [of ws1 p fs'] by simp

theorem CopilotDirPath_memoized_witness:
  "CopilotDirPath svc_ws proj_fs = (svc_ws_found, Inr [''proj'', ''copilot'']) \<and>
   CopilotDirPath svc_ws_found bare_fs = (svc_ws_found, Inr [''proj'', ''copilot'']) \<and>
   CopilotDirPath svc_ws bare_fs =
     (svc_ws, Inl (ErrWorkspaceNotFound [''proj'', ''svc''] ''copilot'' 5))"
proof -
  have found: "CopilotDirPath svc_ws proj_fs = (svc_ws_found, Inr [''proj'', ''copilot''])"
    by code_simp
  have lost: "CopilotDirPath svc_ws bare_fs =
      (svc_ws, Inl (ErrWorkspaceNotFound [''proj'', ''svc''] ''copilot'' 5))"
    by code_simp
  from CopilotDirPath_memoized [OF found, of bare_fs] found lost show ?thesis
    by simp
qed

section \<open>Reading the summary\<close>

text \<open>
  C10. When the marker directory is resolved and the existence probe of the summary
  file does not report true, \<open>Summary\<close> returns the not-associated error. The probe's
  own error \<open>r\<close> is not looked at: the answer is the same when the file is absent
  (\<open>r = None\<close>) and when the probe failed (\<open>r = Some e\<close>).
\<close>

theorem Summary_probe_error_discarded:
  assumes "CopilotDirPath ws fs = (ws1, Inr copilotPath)"
    and "Exists fs (filepath_Join copilotPath [SummaryFileName]) = (b, r)"
    and "\<not> b \<or> r \<noteq> None"
  shows "Summary y ws fs = (ws1, Inl ErrNoAssociatedApplication)"
proof -
  have "\<not> b"
    using assms(2,3) by (auto simp: Exists_def split: sum.splits if_splits)
  with assms(1,2) show ?thesis
    by (simp add: Summary_def summaryPath_def)
qed

theorem Summary_probe_error_discarded_witness:
  "Exists locked_fs (filepath_Join [''proj'', ''copilot''] [SummaryFileName]) = (False, Some EACCES) \<and>
   node_at locked_fs [''proj'', ''copilot'', ''.workspace''] = Some (File True ''application: acme'') \<and>
   Summary line_yaml proj_ws locked_fs = (proj_ws_found, Inl ErrNoAssociatedApplication)"
proof -
  have found: "CopilotDirPath proj_ws locked_fs = (proj_ws_found, Inr [''proj'', ''copilot''])"
    by code_simp
  have probe: "Exists locked_fs (filepath_Join [''proj'', ''copilot''] [SummaryFileName]) =
      (False, Some EACCES)"
    by code_simp
  have there: "node_at locked_fs [''proj'', ''copilot'', ''.workspace''] =
      Some (File True ''application: acme'')"
    by code_simp
  from Summary_probe_error_discarded [OF found probe, of line_yaml] probe there show ?thesis
    by simp
qed

section \<open>The bounded search for the marker directory\<close>

lemma ancestor_Suc: "ancestor (Suc k) p = ancestor k (filepath_Dir p)"
  by (simp add: ancestor_def funpow_swap1)

lemma marker_at_Suc: "marker_at (Suc k) p = marker_at k (filepath_Dir p)"
  by (simp add: marker_at_def ancestor_Suc)

lemma marker_at_0: "marker_at 0 p = filepath_Join p [CopilotDirName]"
  by (simp add: marker_at_def ancestor_def)

lemma searchParents_none:
  "(\<And>k. k < n \<Longrightarrow> DirExists fs (marker_at k dir) = (False, None)) \<Longrightarrow>
     searchParents fs dir n = Inr None"
proof (induction n arbitrary: dir)
  case 0
  show ?case by simp
next
  case (Suc n)
  have here: "DirExists fs (filepath_Join dir [CopilotDirName]) = (False, None)"
    using Suc.prems [of 0] by (simp add: marker_at_0)
  have "searchParents fs (filepath_Dir dir) n = Inr None"
  proof (rule Suc.IH)
    fix k assume "k < n"
    then show "DirExists fs (marker_at k (filepath_Dir dir)) = (False, None)"
      using Suc.prems [of "Suc k"] by (simp add: marker_at_Suc)
  qed
  with here show ?case by simp
qed






section \<open>Writing and reading files under the marker directory\<close>

lemma Stat_agree:
  "(\<And>r. prefix r q \<Longrightarrow> node_at fs' r = node_at fs r) \<Longrightarrow> Stat fs' q = Stat fs q"
proof (induction q rule: rev_induct)
  case Nil
  then show ?case by (simp add: Stat_def)
next
  case (snoc c q)
  have "Stat fs' q = Stat fs q"
    by (rule snoc.IH) (simp add: snoc.prems)
  moreover have "node_at fs' (q @ [c]) = node_at fs (q @ [c])"
    by (simp add: snoc.prems)
  ultimately show ?case by (simp add: Stat_snoc split: sum.splits node.splits)
qed

lemma node_at_put_node:
  "p \<noteq> [] \<Longrightarrow> node_at (put_node p n fs) q = (if q = p then Some n else node_at fs q)"
  by (simp add: node_at_def put_node_def)

lemma Stat_put_node_other:
  assumes "p \<noteq> []" and "\<not> prefix p q"
  shows "Stat (put_node p n fs) q = Stat fs q"
proof (rule Stat_agree)
  fix r assume "prefix r q"
  with assms(2) have "r \<noteq> p" by auto
  with assms(1) show "node_at (put_node p n fs) r = node_at fs r"
    by (simp add: node_at_put_node)
qed

lemma not_prefix_butlast: "p \<noteq> [] \<Longrightarrow> \<not> prefix p (butlast p)"
  by (metis length_butlast prefix_length_le diff_less length_greater_0_conv less_numeral_extra(1) not_le)

lemma Stat_put_node_same:
  assumes "p \<noteq> []" and "Stat fs (butlast p) = Inr (Directory True)"
  shows "Stat (put_node p n fs) p = Inr n"
proof -
  have par: "Stat (put_node p n fs) (butlast p) = Inr (Directory True)"
    using assms by (simp add: Stat_put_node_other not_prefix_butlast)
  from assms(1) have "node_at (put_node p n fs) p = Some n"
    by (simp add: node_at_put_node)
  with assms(1) par Stat_snoc [of "put_node p n fs" "butlast p" "last p"] show ?thesis
    by simp
qed

lemma WriteFile_ok:
  assumes "WriteFile fs p d = (fs1, None)"
  shows "p \<noteq> [] \<and> Stat fs (butlast p) = Inr (Directory True) \<and> fs1 = put_node p (File True d) fs"
  using assms
  by (auto simp: WriteFile_def split: if_splits sum.splits node.splits option.splits)

lemma WriteFile_then_Stat:
  assumes "WriteFile fs p d = (fs1, None)"
  shows "Stat fs1 p = Inr (File True d)" and "Stat fs1 (butlast p) = Inr (Directory True)"
  using WriteFile_ok [OF assms]
  by (simp_all add: Stat_put_node_same Stat_put_node_other not_prefix_butlast)

lemma MkdirAll_of_directory:
  "Stat fs p = Inr (Directory ok) \<Longrightarrow> MkdirAll fs p = (fs, None)"
  by (subst MkdirAll.simps) simp

lemma write_Inr:
  assumes "write ws fs d elem = (ws1, fs2, Inr filename)"
  shows "\<exists>copilotPath fs1.
           CopilotDirPath ws fs = (ws1, Inr copilotPath) \<and>
           filename = filepath_Join copilotPath elem \<and>
           MkdirAll fs (filepath_Dir filename) = (fs1, None) \<and>
           Exists fs1 filename = (False, None) \<and>
           WriteFile fs1 filename d = (fs2, None)"
proof -
  obtain wsa r where c: "CopilotDirPath ws fs = (wsa, r)" by (cases "CopilotDirPath ws fs")
  show ?thesis
  proof (cases r)
    case (Inl e)
    with c assms show ?thesis by (simp add: write_def)
  next
    case (Inr cp)
    obtain fs1 me where m: "MkdirAll fs (filepath_Dir (filepath_Join cp elem)) = (fs1, me)"
      by (cases "MkdirAll fs (filepath_Dir (filepath_Join cp elem))")
    obtain b ee where e: "Exists fs1 (filepath_Join cp elem) = (b, ee)"
      by (cases "Exists fs1 (filepath_Join cp elem)")
    obtain fsw we where w: "WriteFile fs1 (filepath_Join cp elem) d = (fsw, we)"
      by (cases "WriteFile fs1 (filepath_Join cp elem) d")
    from assms c Inr m e w show ?thesis
      by (simp add: write_def Let_def split: option.splits bool.splits if_splits)
  qed
qed

lemma write_then_write:
  assumes "write ws fs d elem = (ws1, fs2, Inr filename)"
  shows "write ws1 fs2 d' elem = (ws1, fs2, Inl (ErrFileExists filename))"
proof -
  from write_Inr [OF assms] obtain cp fs1 where
    c: "CopilotDirPath ws fs = (ws1, Inr cp)" and f: "filename = filepath_Join cp elem"
    and w: "WriteFile fs1 filename d = (fs2, None)" by blast
  have c2: "CopilotDirPath ws1 fs2 = (ws1, Inr cp)"
    using CopilotDirPath_again [OF c] .
  have "MkdirAll fs2 (filepath_Dir filename) = (fs2, None)"
    using WriteFile_then_Stat(2) [OF w] by (simp add: filepath_Dir_def MkdirAll_of_directory)
  moreover have "Exists fs2 filename = (True, None)"
    using WriteFile_then_Stat(1) [OF w] by (simp add: Exists_def)
  ultimately show ?thesis using c2 f by (simp add: write_def)
qed

lemma write_then_read:
  assumes "write ws fs d elem = (ws1, fs2, Inr filename)"
  shows "read ws1 fs2 elem = (ws1, Inr d)"
proof -
  from write_Inr [OF assms] obtain cp fs1 where
    c: "CopilotDirPath ws fs = (ws1, Inr cp)" and f: "filename = filepath_Join cp elem"
    and w: "WriteFile fs1 filename d = (fs2, None)" by blast
  have c2: "CopilotDirPath ws1 fs2 = (ws1, Inr cp)"
    using CopilotDirPath_again [OF c] .
  have "ReadFile fs2 filename = Inr d"
    using WriteFile_then_Stat(1) [OF w] by (simp add: ReadFile_def)
  with c2 f show ?thesis by (simp add: read_def)
qed


lemma Stat_snoc_Inr:
  "Stat fs (q @ [c]) = Inr n \<Longrightarrow> Stat fs q = Inr (Directory True)"
  by (auto simp: Stat_snoc split: sum.splits node.splits if_splits)

lemma Stat_parent:
  assumes "Stat fs p = Inr n"
  shows "\<exists>ok. Stat fs (butlast p) = Inr (Directory ok)"
proof (cases p rule: rev_cases)
  case Nil
  then have "Stat fs (butlast p) = Inr (Directory True)" by (simp add: Stat_def node_at_def)
  then show ?thesis by blast
next
  case (snoc q c)
  with assms Stat_snoc_Inr [of fs q c n] show ?thesis by auto
qed

lemma write_existing:
  assumes "CopilotDirPath ws fs = (ws1, Inr root)"
    and "Stat fs (filepath_Join root elem) = Inr n"
  shows "write ws fs d elem = (ws1, fs, Inl (ErrFileExists (filepath_Join root elem)))"
proof -
  from Stat_parent [OF assms(2)] obtain ok where
    "Stat fs (butlast (filepath_Join root elem)) = Inr (Directory ok)" by blast
  then have "MkdirAll fs (filepath_Dir (filepath_Join root elem)) = (fs, None)"
    by (simp add: filepath_Dir_def MkdirAll_of_directory)
  moreover have "Exists fs (filepath_Join root elem) = (True, None)"
    using assms(2) by (simp add: Exists_def)
  ultimately show ?thesis using assms(1) by (simp add: write_def)
qed

text \<open>
  C2. After a successful write of the manifest of a workload \<open>name\<close> with payload
  \<open>data1\<close>, a second write to the same name with any payload \<open>data2\<close> fails with the
  file-exists error carrying the path of the manifest, leaves the filesystem and the
  workspace as they are, and reading the manifest back yields \<open>data1\<close>. More
  generally, a manifest write to a path at which anything exists fails with the
  file-exists error and leaves the filesystem as it is.
\<close>

theorem manifest_write_never_overwrites:
  "(WriteServiceManifest ws fs (Inr data1) name = (ws1, fs1, Inr filename) \<longrightarrow>
      WriteServiceManifest ws1 fs1 (Inr data2) name = (ws1, fs1, Inl (ErrFileExists filename)) \<and>
      ReadServiceManifest ws1 fs1 name = (ws1, Inr data1)) \<and>
   (CopilotDirPath ws fs = (ws1, Inr root) \<and>
    Stat fs (filepath_Join root [name, manifestFileName]) = Inr n \<longrightarrow>
      WriteServiceManifest ws fs (Inr data2) name =
        (ws1, fs, Inl (ErrFileExists (filepath_Join root [name, manifestFileName]))))"
proof -
  have second: "WriteServiceManifest ws1 fs1 (Inr data2) name = (ws1, fs1, Inl (ErrFileExists filename)) \<and>
      ReadServiceManifest ws1 fs1 name = (ws1, Inr data1)"
    if "WriteServiceManifest ws fs (Inr data1) name = (ws1, fs1, Inr filename)"
  proof -
    from that have w: "write ws fs data1 [name, manifestFileName] = (ws1, fs1, Inr filename)"
      by (simp add: WriteServiceManifest_def)
    from write_then_write [OF w, of data2] write_then_read [OF w] show ?thesis
      by (simp add: WriteServiceManifest_def ReadServiceManifest_def readWorkloadManifest_def)
  qed
  have existing: "WriteServiceManifest ws fs (Inr data2) name =
      (ws1, fs, Inl (ErrFileExists (filepath_Join root [name, manifestFileName])))"
    if "CopilotDirPath ws fs = (ws1, Inr root) \<and>
        Stat fs (filepath_Join root [name, manifestFileName]) = Inr n"
    using that write_existing [of ws fs ws1 root "[name, manifestFileName]" n data2]
    by (simp add: WriteServiceManifest_def)
  from second existing show ?thesis by blast
qed

theorem manifest_write_never_overwrites_witness:
  "WriteServiceManifest svc_ws proj_fs (Inr ''type: web'') ''front'' =
     (svc_ws_found, front_fs, Inr [''proj'', ''copilot'', ''front'', ''manifest.yml'']) \<and>
   WriteServiceManifest svc_ws_found front_fs (Inr ''type: job'') ''front'' =
     (svc_ws_found, front_fs, Inl (ErrFileExists [''proj'', ''copilot'', ''front'', ''manifest.yml''])) \<and>
   ReadServiceManifest svc_ws_found front_fs ''front'' = (svc_ws_found, Inr ''type: web'') \<and>
   WriteServiceManifest svc_ws proj_fs (Inr ''type: job'') ''api'' =
     (svc_ws_found, proj_fs, Inl (ErrFileExists [''proj'', ''copilot'', ''api'', ''manifest.yml'']))"
proof -
  have first: "WriteServiceManifest svc_ws proj_fs (Inr ''type: web'') ''front'' =
      (svc_ws_found, front_fs, Inr [''proj'', ''copilot'', ''front'', ''manifest.yml''])"
    by code_simp
  have found: "CopilotDirPath svc_ws proj_fs = (svc_ws_found, Inr [''proj'', ''copilot''])"
    by code_simp
  have path: "filepath_Join [''proj'', ''copilot''] [''api'', manifestFileName] =
      [''proj'', ''copilot'', ''api'', ''manifest.yml'']"
    by code_simp
  have there: "Stat proj_fs (filepath_Join [''proj'', ''copilot''] [''api'', manifestFileName]) =
      Inr (File True ''type: web'')"
    by code_simp
  from manifest_write_never_overwrites
    [of svc_ws proj_fs "''type: web''" "''front''" svc_ws_found front_fs
        "[''proj'', ''copilot'', ''front'', ''manifest.yml'']" "''type: job''"]
    first
  have again: "WriteServiceManifest svc_ws_found front_fs (Inr ''type: job'') ''front'' =
      (svc_ws_found, front_fs, Inl (ErrFileExists [''proj'', ''copilot'', ''front'', ''manifest.yml''])) \<and>
    ReadServiceManifest svc_ws_found front_fs ''front'' = (svc_ws_found, Inr ''type: web'')"
    by blast
  from manifest_write_never_overwrites
    [of svc_ws proj_fs _ "''api''" svc_ws_found _ _ "''type: job''" "[''proj'', ''copilot'']"
        "File True ''type: web''"]
    found there
  have "WriteServiceManifest svc_ws proj_fs (Inr ''type: job'') ''api'' =
      (svc_ws_found, proj_fs,
       Inl (ErrFileExists (filepath_Join [''proj'', ''copilot''] [''api'', manifestFileName])))"
    by blast
  with first again path show ?thesis by simp
qed

text \<open>
  C9. After \<open>WriteAddon\<close> of payload \<open>data\<close> for entity \<open>svc\<close> and base name \<open>b\<close> has
  succeeded, the file written is \<open>svc/addons/b.yml\<close> under the marker directory, and
  \<open>ReadAddon\<close> of \<open>svc\<close> and \<open>b.yml\<close> returns exactly \<open>data\<close>.
\<close>

theorem addon_write_read_roundtrip:
  assumes "WriteAddon ws fs (Inr data) svc b = (ws1, fs1, Inr filename)"
  shows "ReadAddon ws1 fs1 svc (b @ ''.yml'') = (ws1, Inr data) \<and>
         (\<exists>root. copilotDir ws1 = Some root \<and>
                  filename = filepath_Join root [svc, ''addons'', b @ ''.yml''])"
proof -
  from assms have w: "write ws fs data [svc, addonsDirName, b @ ymlFileExtension] = (ws1, fs1, Inr filename)"
    by (simp add: WriteAddon_def)
  from write_Inr [OF w] obtain root where
    c: "CopilotDirPath ws fs = (ws1, Inr root)"
    and f: "filename = filepath_Join root [svc, addonsDirName, b @ ymlFileExtension]" by blast
  from CopilotDirPath_Inr [OF c] f have "\<exists>root. copilotDir ws1 = Some root \<and>
      filename = filepath_Join root [svc, ''addons'', b @ ''.yml'']"
    by (simp add: addonsDirName_def ymlFileExtension_def)
  with write_then_read [OF w] show ?thesis
    by (simp add: ReadAddon_def addonsDirName_def ymlFileExtension_def)
qed

theorem addon_write_read_roundtrip_witness:
  "WriteAddon svc_ws proj_fs (Inr ''Resources: {}'') ''api'' ''policy'' =
     (svc_ws_found, policy_fs, Inr [''proj'', ''copilot'', ''api'', ''addons'', ''policy.yml'']) \<and>
   ReadAddon svc_ws_found policy_fs ''api'' ''policy.yml'' = (svc_ws_found, Inr ''Resources: {}'')"
proof -
  have first: "WriteAddon svc_ws proj_fs (Inr ''Resources: {}'') ''api'' ''policy'' =
      (svc_ws_found, policy_fs, Inr [''proj'', ''copilot'', ''api'', ''addons'', ''policy.yml''])"
    by code_simp
  from addon_write_read_roundtrip [OF first] first show ?thesis
    by simp
qed

section \<open>Associating the workspace with an application\<close>

lemma CopilotDirPath_Inl_not_NoAssociated:
  assumes "CopilotDirPath ws fs = (ws1, Inl e)"
  shows "\<not> as_errNoAssociatedApplication e"
proof (cases "copilotDir ws")
  case (Some q)
  with assms show ?thesis by (simp add: CopilotDirPath_def)
next
  case None
  show ?thesis
  proof (cases "filepath_Base (workingDir ws) = CopilotDirName")
    case True
    with None assms show ?thesis by (simp add: CopilotDirPath_def)
  next
    case False
    show ?thesis
    proof (cases "searchParents fs (workingDir ws) maximumParentDirsToSearch")
      case (Inl e)
      with None False assms show ?thesis by (auto simp: CopilotDirPath_def)
    next
      case (Inr r)
      with None False assms show ?thesis by (cases r) (auto simp: CopilotDirPath_def)
    qed
  qed
qed

lemma createCopilotDir_cached:
  "copilotDir ws = Some cp \<Longrightarrow> createCopilotDir ws fs = (ws, fs, None)"
  by (simp add: createCopilotDir_def CopilotDirPath_cached)

lemma Summary_resolved:
  assumes "CopilotDirPath ws fs = (ws1, Inr cp)"
  shows "Summary y ws fs =
     (ws1, if fst (Exists fs (filepath_Join cp [SummaryFileName]))
           then (case ReadFile fs (filepath_Join cp [SummaryFileName]) of
                   Inl e \<Rightarrow> Inl (PathError e)
                 | Inr v \<Rightarrow> Unmarshal_Summary y v)
           else Inl ErrNoAssociatedApplication)"
  using assms by (simp add: Summary_def summaryPath_def Let_def split: sum.splits)

lemma Summary_unresolved:
  assumes "CopilotDirPath ws fs = (ws1, Inl e)"
  shows "Summary y ws fs = (ws1, Inl e)"
  using assms by (simp add: Summary_def summaryPath_def)

lemma Summary_stable:
  assumes "CopilotDirPath ws fs = (ws1, Inr cp)" and "Summary y ws fs = (ws2, r)"
  shows "ws2 = ws1 \<and> Summary y ws1 fs = (ws1, r)"
proof -
  have c: "CopilotDirPath ws1 fs = (ws1, Inr cp)"
    using CopilotDirPath_again [OF assms(1)] .
  from assms(2) show ?thesis
    unfolding Summary_resolved [OF assms(1)] Summary_resolved [OF c] by auto
qed

lemma writeSummary_ok:
  assumes "writeSummary y ws fs appName = (ws1, fs1, None)"
  shows "\<exists>cp b. CopilotDirPath ws fs = (ws1, Inr cp) \<and>
           Marshal_Summary y \<lparr>Application = appName\<rparr> = Inr b \<and>
           WriteFile fs (filepath_Join cp [SummaryFileName]) b = (fs1, None)"
proof -
  obtain wsa r where c: "CopilotDirPath ws fs = (wsa, r)" by (cases "CopilotDirPath ws fs")
  show ?thesis
  proof (cases r)
    case (Inl e)
    with c assms show ?thesis by (simp add: writeSummary_def summaryPath_def)
  next
    case (Inr cp)
    show ?thesis
    proof (cases "Marshal_Summary y \<lparr>Application = appName\<rparr>")
      case (Inl e)
      with c Inr assms show ?thesis by (simp add: writeSummary_def summaryPath_def)
    next
      case m: (Inr b)
      obtain fsw we where w: "WriteFile fs (filepath_Join cp [SummaryFileName]) b = (fsw, we)"
        by (cases "WriteFile fs (filepath_Join cp [SummaryFileName]) b")
      from c Inr m w assms show ?thesis
        by (cases we) (simp_all add: writeSummary_def summaryPath_def)
    qed
  qed
qed

lemma Summary_after_writeSummary:
  assumes "codec_roundtrip y appName"
    and "writeSummary y ws fs appName = (ws1, fs1, None)"
  shows "copilotDir ws1 \<noteq> None \<and> Summary y ws1 fs1 = (ws1, Inr \<lparr>Application = appName\<rparr>)"
proof -
  from writeSummary_ok [OF assms(2)] obtain cp b where
    c: "CopilotDirPath ws fs = (ws1, Inr cp)"
    and m: "Marshal_Summary y \<lparr>Application = appName\<rparr> = Inr b"
    and w: "WriteFile fs (filepath_Join cp [SummaryFileName]) b = (fs1, None)" by blast
  have c1: "CopilotDirPath ws1 fs1 = (ws1, Inr cp)"
    using CopilotDirPath_again [OF c] .
  have u: "Unmarshal_Summary y b = Inr \<lparr>Application = appName\<rparr>"
    using assms(1) m by (simp add: codec_roundtrip_def)
  have s: "Stat fs1 (filepath_Join cp [SummaryFileName]) = Inr (File True b)"
    using WriteFile_then_Stat(1) [OF w] .
  have "Summary y ws1 fs1 = (ws1, Inr \<lparr>Application = appName\<rparr>)"
    unfolding Summary_resolved [OF c1] using s u by (simp add: Exists_def ReadFile_def)
  with CopilotDirPath_Inr [OF c] show ?thesis by simp
qed

lemma Create_ok:
  assumes "codec_roundtrip y appName"
    and "Create y ws fs appName = (wsR, fsR, None)"
  shows "copilotDir wsR \<noteq> None \<and> Summary y wsR fsR = (wsR, Inr \<lparr>Application = appName\<rparr>)"
proof -
  obtain ws1 fs1 e1 where d: "createCopilotDir ws fs = (ws1, fs1, e1)"
    by (cases "createCopilotDir ws fs")
  obtain ws2 r where s: "Summary y ws1 fs1 = (ws2, r)" by (cases "Summary y ws1 fs1")
  obtain ws3 r3 where c: "CopilotDirPath ws1 fs1 = (ws3, r3)" by (cases "CopilotDirPath ws1 fs1")
  from assms(2) d have e1: "e1 = None" by (cases e1) (simp_all add: Create_def)
  show ?thesis
  proof (cases r)
    case (Inr summary)
    from assms(2) d e1 s Inr have app: "Application summary = appName"
      and R: "wsR = ws2" "fsR = fs1"
      by (simp_all add: Create_def split: if_splits)
    from app have eq: "summary = \<lparr>Application = appName\<rparr>" by (cases summary) simp
    show ?thesis
    proof (cases r3)
      case (Inl e)
      with c s Inr show ?thesis by (simp add: Summary_unresolved)
    next
      case cp: (Inr cp)
      from Summary_stable [of ws1 fs1 ws3 cp y ws2 r] c cp s
      have "ws2 = ws3" "Summary y ws3 fs1 = (ws3, r)" by simp_all
      moreover from CopilotDirPath_Inr [of ws1 fs1 ws3 cp] c cp have "copilotDir ws3 \<noteq> None" by simp
      ultimately show ?thesis using R Inr eq by simp
    qed
  next
    case (Inl err)
    show ?thesis
    proof (cases "as_errNoAssociatedApplication err")
      case False
      with assms(2) d e1 s Inl show ?thesis by (simp add: Create_def)
    next
      case True
      with assms(2) d e1 s Inl have "writeSummary y ws2 fs1 appName = (wsR, fsR, None)"
        by (simp add: Create_def)
      from Summary_after_writeSummary [OF assms(1) this] show ?thesis .
    qed
  qed
qed

lemma Create_again:
  assumes "copilotDir ws \<noteq> None" and "Summary y ws fs = (ws, Inr \<lparr>Application = n1\<rparr>)"
  shows "Create y ws fs n2 =
     (ws, fs, if n1 \<noteq> n2 then Some (ErrHasExistingApplication n1) else None)"
proof -
  from assms(1) obtain cp where "copilotDir ws = Some cp" by auto
  then have "createCopilotDir ws fs = (ws, fs, None)" by (rule createCopilotDir_cached)
  with assms(2) show ?thesis by (simp add: Create_def)
qed

lemma Join_CopilotDirName: "filepath_Join p [CopilotDirName] = p @ [''copilot'']"
  by (simp add: filepath_Join_def CopilotDirName_def push_elem_def)

lemma Join_SummaryFileName: "filepath_Join p [SummaryFileName] = p @ [''.workspace'']"
  by (simp add: filepath_Join_def SummaryFileName_def push_elem_def)

lemma wf_child_None:
  assumes "wf_fs fs" and "node_at fs p = None"
  shows "node_at fs (p @ [c]) = None"
proof (rule ccontr)
  assume "node_at fs (p @ [c]) \<noteq> None"
  then obtain n where "map_of (nodes fs) (p @ [c]) = Some n"
    by (auto simp: node_at_def)
  then have "(p @ [c], n) \<in> set (nodes fs)" by (rule map_of_SomeD)
  with assms(1) have "is_dir_at fs p"
    by (auto simp: wf_fs_def list_all_iff)
  with assms(2) show False by (simp add: is_dir_at_def)
qed

lemma Stat_ENOENT_child:
  assumes "Stat fs p = Inr (Directory True)" and "Stat fs (p @ [c]) = Inl ENOENT"
  shows "node_at fs (p @ [c]) = None"
  using assms by (simp add: Stat_snoc split: option.splits)

lemma Create_uninitialised:
  assumes u: "uninitialised ws fs"
    and m: "Marshal_Summary y \<lparr>Application = appName\<rparr> = Inr b"
  shows "Create y ws fs appName =
     (ws\<lparr>copilotDir := Some (workingDir ws @ [''copilot''])\<rparr>,
      put_node (workingDir ws @ [''copilot'', ''.workspace'']) (File True b)
        (put_node (workingDir ws @ [''copilot'']) (Directory True) fs),
      None)"
proof -
  let ?wd = "workingDir ws"
  let ?cp = "?wd @ [''copilot'']"
  let ?sp = "?cp @ [''.workspace'']"
  let ?fs1 = "put_node ?cp (Directory True) fs"
  let ?ws2 = "ws\<lparr>copilotDir := Some ?cp\<rparr>"
  from u have fresh: "copilotDir ws = None" and wd: "cwd fs = ?wd" and wf: "wf_fs fs"
    and base: "filepath_Base ?wd \<noteq> CopilotDirName"
    and sw: "Stat fs ?wd = Inr (Directory True)"
    and e0: "Exists fs (marker_at 0 ?wd) = (False, None)"
    and up: "DirExists fs (marker_at 1 ?wd) = (False, None)"
      "DirExists fs (marker_at 2 ?wd) = (False, None)"
      "DirExists fs (marker_at 3 ?wd) = (False, None)"
      "DirExists fs (marker_at 4 ?wd) = (False, None)"
    by (simp_all add: uninitialised_def)
  have m0: "marker_at 0 ?wd = ?cp" by (simp add: marker_at_0 Join_CopilotDirName)
  from e0 have s0: "Stat fs ?cp = Inl ENOENT"
    by (auto simp: m0 Exists_def split: sum.splits if_splits)
  have n0: "node_at fs ?cp = None" using Stat_ENOENT_child [OF sw s0] .
  have d0: "DirExists fs (marker_at 0 ?wd) = (False, None)"
    using s0 by (simp add: m0 DirExists_def)
  have none: "searchParents fs ?wd 5 = Inr None"
  proof (rule searchParents_none)
    fix k :: nat assume "k < 5"
    then consider "k = 0" | "k = 1" | "k = 2" | "k = 3" | "k = 4" by linarith
    then show "DirExists fs (marker_at k ?wd) = (False, None)"
      using d0 up by cases simp_all
  qed
  have c0: "CopilotDirPath ws fs =
      (ws, Inl (ErrWorkspaceNotFound ?wd CopilotDirName maximumParentDirsToSearch))"
    using fresh base none by (simp add: CopilotDirPath_def maximumParentDirsToSearch_def)
  have mk: "Mkdir fs ?cp = (?fs1, None)"
    using sw n0 by (simp add: Mkdir_def)
  have ccd: "createCopilotDir ws fs = (ws, ?fs1, None)"
    using c0 mk wd by (simp add: createCopilotDir_def abs_path_def Join_CopilotDirName)
  have s1: "Stat ?fs1 ?cp = Inr (Directory True)"
    using sw by (intro Stat_put_node_same) simp_all
  have c1: "CopilotDirPath ws ?fs1 = (?ws2, Inr ?cp)"
    using fresh base s1
    by (simp add: CopilotDirPath_def maximumParentDirsToSearch_def eval_nat_numeral
        Join_CopilotDirName DirExists_def)
  have nsp: "node_at ?fs1 ?sp = None"
    using wf_child_None [OF wf n0, of "''.workspace''"] by (simp add: node_at_put_node)
  have "Stat ?fs1 ?sp = Inl ENOENT"
    using Stat_snoc [of ?fs1 ?cp "''.workspace''"] s1 nsp by simp
  then have ex: "Exists ?fs1 (filepath_Join ?cp [SummaryFileName]) = (False, None)"
    by (simp add: Join_SummaryFileName Exists_def)
  have su: "Summary y ws ?fs1 = (?ws2, Inl ErrNoAssociatedApplication)"
    unfolding Summary_resolved [OF c1] using ex by simp
  have c2: "CopilotDirPath ?ws2 ?fs1 = (?ws2, Inr ?cp)"
    using CopilotDirPath_again [OF c1] .
  have wr: "WriteFile ?fs1 ?sp b = (put_node ?sp (File True b) ?fs1, None)"
    using s1 nsp by (simp add: WriteFile_def butlast_append)
  have ws: "writeSummary y ?ws2 ?fs1 appName = (?ws2, put_node ?sp (File True b) ?fs1, None)"
    using c2 m wr by (simp add: writeSummary_def summaryPath_def Join_SummaryFileName)
  show ?thesis
    using ccd su ws by (simp add: Create_def)
qed

text \<open>
  C4. Let the codec give a marshalled summary for \<open>n1\<close> back on unmarshalling. After
  \<open>Create\<close> for \<open>n1\<close> has succeeded, \<open>Create\<close> for a different name \<open>n2\<close> fails with the
  already-associated error carrying \<open>n1\<close>; the filesystem and the workspace are
  returned as they were, and \<open>Summary\<close> still reads \<open>n1\<close>.
\<close>

theorem Create_other_name_refused:
  assumes "codec_roundtrip y n1" and "n1 \<noteq> n2"
    and "Create y ws fs n1 = (ws1, fs1, None)"
  shows "Create y ws1 fs1 n2 = (ws1, fs1, Some (ErrHasExistingApplication n1)) \<and>
         Summary y ws1 fs1 = (ws1, Inr \<lparr>Application = n1\<rparr>)"
proof -
  from Create_ok [OF assms(1,3)] have a: "copilotDir ws1 \<noteq> None"
    and b: "Summary y ws1 fs1 = (ws1, Inr \<lparr>Application = n1\<rparr>)" by simp_all
  from Create_again [OF a b, of n2] assms(2) b show ?thesis by simp
qed

text \<open>Without the condition on the codec the refusal is not the already-associated
  error: for a name the codec does not read back, the second \<open>Create\<close> fails with the
  decode error.\<close>

theorem Create_other_tab_counterexample:
  "Create tab_yaml proj_ws new_fs tab_name = (proj_ws_found, tab_fs, None) \<and>
   Create tab_yaml proj_ws_found tab_fs ''acme'' =
     (proj_ws_found, tab_fs, Some (CodecError ''yaml: found character that cannot start any token''))"
  by code_simp

theorem Create_other_name_refused_witness:
  "Create line_yaml proj_ws new_fs ''acme'' = (proj_ws_found, acme_fs, None) \<and>
   Create line_yaml proj_ws_found acme_fs ''globex'' =
     (proj_ws_found, acme_fs, Some (ErrHasExistingApplication ''acme'')) \<and>
   Summary line_yaml proj_ws_found acme_fs = (proj_ws_found, Inr \<lparr>Application = ''acme''\<rparr>)"
proof -
  have rt: "codec_roundtrip line_yaml ''acme''" by code_simp
  have ne: "''acme'' \<noteq> ''globex''" by simp
  have first: "Create line_yaml proj_ws new_fs ''acme'' = (proj_ws_found, acme_fs, None)"
    by code_simp
  from Create_other_name_refused [OF rt ne first] first show ?thesis by simp
qed

text \<open>
  C5. Let the codec give a marshalled summary for \<open>n\<close> back on unmarshalling. Whenever
  \<open>Create\<close> for \<open>n\<close> succeeds, a second \<open>Create\<close> for \<open>n\<close> succeeds as well and changes
  nothing, and \<open>Summary\<close> reads back the application \<open>n\<close>. The first call does succeed
  in an uninitialised workspace once the summary can be marshalled: it makes the
  copilot directory under the working directory and writes the summary file.
\<close>

theorem Create_idempotent:
  assumes "codec_roundtrip y n"
  shows "(Create y ws fs n = (ws1, fs1, None) \<longrightarrow>
            Create y ws1 fs1 n = (ws1, fs1, None) \<and>
            Summary y ws1 fs1 = (ws1, Inr \<lparr>Application = n\<rparr>)) \<and>
         (uninitialised ws fs \<and> Marshal_Summary y \<lparr>Application = n\<rparr> = Inr b \<longrightarrow>
            Create y ws fs n =
              (ws\<lparr>copilotDir := Some (workingDir ws @ [''copilot''])\<rparr>,
               put_node (workingDir ws @ [''copilot'', ''.workspace'']) (File True b)
                 (put_node (workingDir ws @ [''copilot'']) (Directory True) fs),
               None))"
proof -
  have again: "Create y ws1 fs1 n = (ws1, fs1, None) \<and>
      Summary y ws1 fs1 = (ws1, Inr \<lparr>Application = n\<rparr>)"
    if first: "Create y ws fs n = (ws1, fs1, None)"
  proof -
    from Create_ok [OF assms first] have a: "copilotDir ws1 \<noteq> None"
      and b: "Summary y ws1 fs1 = (ws1, Inr \<lparr>Application = n\<rparr>)" by simp_all
    from Create_again [OF a b, of n] b show ?thesis by simp
  qed
  have fresh: "Create y ws fs n =
      (ws\<lparr>copilotDir := Some (workingDir ws @ [''copilot''])\<rparr>,
       put_node (workingDir ws @ [''copilot'', ''.workspace'']) (File True b)
         (put_node (workingDir ws @ [''copilot'']) (Directory True) fs),
       None)"
    if "uninitialised ws fs \<and> Marshal_Summary y \<lparr>Application = n\<rparr> = Inr b"
    using that Create_uninitialised [of ws fs y n b] by simp
  from again fresh show ?thesis by blast
qed

text \<open>Without the condition on the codec the second call need not succeed: for a
  name the codec does not read back, \<open>Create\<close> succeeds once and then fails with the
  decode error.\<close>

theorem Create_tab_counterexample:
  "Create tab_yaml proj_ws new_fs tab_name = (proj_ws_found, tab_fs, None) \<and>
   Create tab_yaml proj_ws_found tab_fs tab_name =
     (proj_ws_found, tab_fs, Some (CodecError ''yaml: found character that cannot start any token''))"
  by code_simp

theorem Create_idempotent_witness:
  "uninitialised proj_ws new_fs \<and>
   Create line_yaml proj_ws new_fs ''acme'' = (proj_ws_found, acme_fs, None) \<and>
   Create line_yaml proj_ws_found acme_fs ''acme'' = (proj_ws_found, acme_fs, None) \<and>
   Summary line_yaml proj_ws_found acme_fs = (proj_ws_found, Inr \<lparr>Application = ''acme''\<rparr>)"
proof -
  have rt: "codec_roundtrip line_yaml ''acme''" by code_simp
  have un: "uninitialised proj_ws new_fs" by code_simp
  have ma: "Marshal_Summary line_yaml \<lparr>Application = ''acme''\<rparr> = Inr ''application: acme''"
    by code_simp
  have st: "proj_ws\<lparr>copilotDir := Some (workingDir proj_ws @ [''copilot''])\<rparr> = proj_ws_found"
    "put_node (workingDir proj_ws @ [''copilot'', ''.workspace'']) (File True ''application: acme'')
       (put_node (workingDir proj_ws @ [''copilot'']) (Directory True) new_fs) = acme_fs"
    by code_simp+
  note inst = Create_idempotent [OF rt, of proj_ws new_fs proj_ws_found acme_fs "''application: acme''"]
  from inst un ma st have first: "Create line_yaml proj_ws new_fs ''acme'' = (proj_ws_found, acme_fs, None)"
    by simp
  with inst un show ?thesis by simp
qed

section \<open>Deleting the summary file\<close>

lemma map_of_filter_key:
  "map_of (filter (\<lambda>e. fst e \<noteq> p) xs) q = (if q = p then None else map_of xs q)"
  by (induction xs) auto

lemma node_at_drop_node:
  "p \<noteq> [] \<Longrightarrow> node_at (drop_node p fs) q = (if q = p then None else node_at fs q)"
  by (simp add: node_at_def drop_node_def map_of_filter_key)

lemma Remove_frame:
  assumes "Remove fs p = (fs1, r)" and "q \<noteq> p"
  shows "node_at fs1 q = node_at fs q"
proof (cases "p = []")
  case True
  with assms show ?thesis by (simp add: Remove_def)
next
  case False
  with assms show ?thesis
    by (auto simp: Remove_def node_at_drop_node
        split: sum.splits node.splits option.splits if_splits)
qed

lemma DeleteWorkspaceFile_frame:
  assumes "DeleteWorkspaceFile ws fs = (fs1, r)"
    and "q \<noteq> cwd fs @ [''copilot'', ''.workspace'']"
  shows "node_at fs1 q = node_at fs q"
proof -
  have t: "abs_path fs (rel_Join CopilotDirName SummaryFileName) = cwd fs @ [''copilot'', ''.workspace'']"
    by (simp add: abs_path_def rel_Join_def CopilotDirName_def SummaryFileName_def
        filepath_Join_def push_elem_def)
  obtain fs2 r2 where rm: "Remove fs (cwd fs @ [''copilot'', ''.workspace'']) = (fs2, r2)"
    by (cases "Remove fs (cwd fs @ [''copilot'', ''.workspace''])")
  with assms(1) t have "fs1 = fs2"
    by (cases r2) (simp_all add: DeleteWorkspaceFile_def)
  with Remove_frame [OF rm assms(2)] show ?thesis by simp
qed

text \<open>
  C7. \<open>DeleteWorkspaceFile\<close> changes at most the node \<open>copilot/.workspace\<close> under the
  process working directory (\<open>DeleteWorkspaceFile_frame\<close>). That node is the summary
  file of the marker directory only when the marker directory lies in the working
  directory. Run in \<open>/proj/svc\<close>, where \<open>CopilotDirPath\<close> finds the marker directory
  \<open>/proj/copilot\<close> one level up and \<open>Summary\<close> reads \<open>/proj/copilot/.workspace\<close>,
  \<open>DeleteWorkspaceFile\<close> fails with a not-exist error and the summary file stays.
\<close>

theorem DeleteWorkspaceFile_misses_summary:
  "Summary line_yaml svc_ws proj_fs = (svc_ws_found, Inr \<lparr>Application = ''acme''\<rparr>) \<and>
   summaryPath svc_ws proj_fs = (svc_ws_found, Inr [''proj'', ''copilot'', ''.workspace'']) \<and>
   DeleteWorkspaceFile svc_ws_found proj_fs = (proj_fs, Some (PathError ENOENT)) \<and>
   Summary line_yaml svc_ws_found proj_fs = (svc_ws_found, Inr \<lparr>Application = ''acme''\<rparr>)"
  by code_simp

section \<open>Enumerating workloads\<close>

lemma readWorkloadManifest_cached:
  "copilotDir ws = Some cp \<Longrightarrow>
     readWorkloadManifest ws fs name =
       (ws, case ReadFile fs (filepath_Join cp [name, manifestFileName]) of
              Inl e \<Rightarrow> Inl (PathError e) | Inr d \<Rightarrow> Inr d)"
  by (simp add: readWorkloadManifest_def read_def CopilotDirPath_cached split: sum.splits)

lemma loop_step_file:
  "\<not> isDir \<Longrightarrow> workloadNames_loop y match fs cp ws ((n, isDir) # files) names =
     workloadNames_loop y match fs cp ws files names"
  by simp

lemma loop_step_dir:
  assumes "copilotDir ws = Some cp"
  shows "workloadNames_loop y match fs cp ws ((n, True) # files) names =
     (case manifest_status_of y fs cp n of
        NotAnEntity \<Rightarrow> workloadNames_loop y match fs cp ws files names
      | ReadFails e \<Rightarrow> (ws, Inl (Wrapped (ReadManifestForWorkload n) (PathError e)))
      | DecodeFails e \<Rightarrow> (ws, Inl e)
      | HasType t \<Rightarrow>
          if match t then workloadNames_loop y match fs cp ws files (names @ [n])
          else workloadNames_loop y match fs cp ws files names)"
  by (simp add: readWorkloadManifest_cached [OF assms] manifest_status_of_def Let_def
      readWorkloadType_def split: sum.splits)

lemma loop_all_fine:
  assumes "copilotDir ws = Some cp"
  shows "list_all (entry_fine y fs cp) files \<Longrightarrow>
     workloadNames_loop y match fs cp ws files names =
       (ws, Inr (names @ filter (accepted y match fs cp) (map fst (filter snd files))))"
proof (induction files arbitrary: names)
  case Nil
  show ?case by simp
next
  case (Cons f files)
  from Cons.prems have rest: "list_all (entry_fine y fs cp) files"
    and fine: "entry_fine y fs cp f" by simp_all
  note IH = Cons.IH [OF rest]
  show ?case
  proof (cases f)
    case (Pair n isDir)
    show ?thesis
    proof (cases isDir)
      case False
      then show ?thesis by (simp add: Pair IH)
    next
      case True
      from fine show ?thesis
        by (cases "manifest_status_of y fs cp n")
           (simp_all add: Pair True loop_step_dir [OF assms] IH entry_fine_def accepted_def
              del: workloadNames_loop.simps)
    qed
  qed
qed

lemma loop_first_failure:
  assumes "copilotDir ws = Some cp"
  shows "list_all (entry_fine y fs cp) pre \<Longrightarrow>
     workloadNames_loop y match fs cp ws (pre @ (n, True) # post) names =
       (case manifest_status_of y fs cp n of
          ReadFails e \<Rightarrow> (ws, Inl (Wrapped (ReadManifestForWorkload n) (PathError e)))
        | DecodeFails e \<Rightarrow> (ws, Inl e)
        | _ \<Rightarrow> workloadNames_loop y match fs cp ws ((n, True) # post)
                 (names @ filter (accepted y match fs cp) (map fst (filter snd pre))))"
proof (induction pre arbitrary: names)
  case Nil
  show ?case
    by (cases "manifest_status_of y fs cp n")
       (simp_all add: loop_step_dir [OF assms] del: workloadNames_loop.simps)
next
  case (Cons f pre)
  from Cons.prems have rest: "list_all (entry_fine y fs cp) pre"
    and fine: "entry_fine y fs cp f" by simp_all
  note IH = Cons.IH [OF rest]
  show ?case
  proof (cases f)
    case (Pair m isDir)
    show ?thesis
    proof (cases isDir)
      case False
      then show ?thesis by (simp add: Pair IH split: manifest_status.splits)
    next
      case True
      from fine show ?thesis
        by (cases "manifest_status_of y fs cp m")
           (simp_all add: Pair True loop_step_dir [OF assms] IH entry_fine_def accepted_def
              del: workloadNames_loop.simps split: manifest_status.splits)
    qed
  qed
qed

text \<open>
  C3. Let the marker directory be resolved and listed. An entry of the
  listing is passed over when it is no directory or when the existence probe of its
  manifest does not report true (the manifest is absent, or the probe itself fails).
  If no sub-directory has a manifest that exists but cannot be read or decoded, the
  enumeration returns exactly the sub-directories whose manifest exists, is read and
  decoded, and has a type the predicate accepts, in listing order. Otherwise the
  first such sub-directory in listing order decides: a manifest that cannot be
  decoded fails the enumeration with the decode error, a manifest that exists but
  cannot be read fails it with the read error wrapped for that workload.
\<close>

theorem workloadNames_enumerates:
  assumes "CopilotDirPath ws fs = (ws1, Inr root)" and "ReadDir fs root = Inr files"
  shows "(list_all (entry_fine y fs root) files \<longrightarrow>
            workloadNames y ws fs match =
              (ws1, Inr (filter (accepted y match fs root) (map fst (filter snd files))))) \<and>
         (\<forall>pre n post e.
            files = pre @ (n, True) # post \<and> list_all (entry_fine y fs root) pre \<and>
            manifest_status_of y fs root n = DecodeFails e \<longrightarrow>
            workloadNames y ws fs match = (ws1, Inl e)) \<and>
         (\<forall>pre n post e.
            files = pre @ (n, True) # post \<and> list_all (entry_fine y fs root) pre \<and>
            manifest_status_of y fs root n = ReadFails e \<longrightarrow>
            workloadNames y ws fs match =
              (ws1, Inl (Wrapped (ReadManifestForWorkload n) (PathError e))))"
proof -
  from CopilotDirPath_Inr [OF assms(1)] have cached: "copilotDir ws1 = Some root" by simp
  have run: "workloadNames y ws fs match = workloadNames_loop y match fs root ws1 files []"
    using assms by (simp add: workloadNames_def)
  have all_fine: "workloadNames y ws fs match =
      (ws1, Inr (filter (accepted y match fs root) (map fst (filter snd files))))"
    if "list_all (entry_fine y fs root) files"
    using loop_all_fine [OF cached that, of match "[]"] run by simp
  have decode: "workloadNames y ws fs match = (ws1, Inl e)"
    if "files = pre @ (n, True) # post" and "list_all (entry_fine y fs root) pre"
      and "manifest_status_of y fs root n = DecodeFails e" for pre n post e
    using loop_first_failure [OF cached that(2), of match n post "[]"] run that(1,3) by simp
  have unreadable: "workloadNames y ws fs match =
      (ws1, Inl (Wrapped (ReadManifestForWorkload n) (PathError e)))"
    if "files = pre @ (n, True) # post" and "list_all (entry_fine y fs root) pre"
      and "manifest_status_of y fs root n = ReadFails e" for pre n post e
    using loop_first_failure [OF cached that(2), of match n post "[]"] run that(1,3) by simp
  from all_fine decode unreadable show ?thesis by blast
qed

text \<open>A manifest that exists and cannot be read is not passed over: with such a
  manifest for the workload \<open>db\<close>, the enumeration fails.\<close>

theorem workloadNames_unreadable_counterexample:
  "node_at unread_fs [''proj'', ''copilot'', ''db'', ''manifest.yml''] = Some (File False ''type: web'') \<and>
   Exists unread_fs [''proj'', ''copilot'', ''db'', ''manifest.yml''] = (True, None) \<and>
   ReadFile unread_fs [''proj'', ''copilot'', ''db'', ''manifest.yml''] = Inl EACCES \<and>
   ServiceNames line_yaml [''web''] svc_ws unread_fs =
     (svc_ws_found, Inl (Wrapped (ReadManifestForWorkload ''db'') (PathError EACCES)))"
  by code_simp

theorem workloadNames_enumerates_witness:
  "ServiceNames line_yaml [''web''] svc_ws mixed_fs = (svc_ws_found, Inr [''api'']) \<and>
   ServiceNames line_yaml [''web''] svc_ws corrupt_fs =
     (svc_ws_found, Inl (CodecError ''yaml: unmarshal errors'')) \<and>
   ServiceNames line_yaml [''web''] svc_ws unread_fs =
     (svc_ws_found, Inl (Wrapped (ReadManifestForWorkload ''db'') (PathError EACCES)))"
proof -
  let ?root = "[''proj'', ''copilot'']"
  let ?match = "\<lambda>wlType. List.member [''web''] wlType"
  let ?files = "[(''.workspace'', False), (''api'', True), (''cron'', True), (''docs'', True),
      (''pipeline.yml'', False), (''vault'', True)]"
  have c1: "CopilotDirPath svc_ws mixed_fs = (svc_ws_found, Inr ?root)"
    and c2: "CopilotDirPath svc_ws corrupt_fs = (svc_ws_found, Inr ?root)"
    and c3: "CopilotDirPath svc_ws unread_fs = (svc_ws_found, Inr ?root)"
    by code_simp+
  have d1: "ReadDir mixed_fs ?root = Inr ?files" by code_simp
  have d2: "ReadDir corrupt_fs ?root =
      Inr ([(''.workspace'', False), (''api'', True)] @ (''bad'', True) #
           [(''cron'', True), (''docs'', True), (''pipeline.yml'', False), (''vault'', True)])"
    by code_simp
  have d3: "ReadDir unread_fs ?root =
      Inr ([(''.workspace'', False), (''api'', True), (''cron'', True)] @ (''db'', True) #
           [(''docs'', True), (''pipeline.yml'', False), (''vault'', True)])"
    by code_simp
  have f1: "list_all (entry_fine line_yaml mixed_fs ?root) ?files" by code_simp
  have a1: "filter (accepted line_yaml ?match mixed_fs ?root) (map fst (filter snd ?files)) = [''api'']"
    by code_simp
  have f2: "list_all (entry_fine line_yaml corrupt_fs ?root) [(''.workspace'', False), (''api'', True)]"
    by code_simp
  have s2: "manifest_status_of line_yaml corrupt_fs ?root ''bad'' =
      DecodeFails (CodecError ''yaml: unmarshal errors'')" by code_simp
  have f3: "list_all (entry_fine line_yaml unread_fs ?root)
      [(''.workspace'', False), (''api'', True), (''cron'', True)]"
    by code_simp
  have s3: "manifest_status_of line_yaml unread_fs ?root ''db'' = ReadFails EACCES" by code_simp
  from workloadNames_enumerates [OF c1 d1, of line_yaml ?match] f1
  have "workloadNames line_yaml svc_ws mixed_fs ?match =
      (svc_ws_found, Inr (filter (accepted line_yaml ?match mixed_fs ?root) (map fst (filter snd ?files))))"
    by blast
  then have r1: "workloadNames line_yaml svc_ws mixed_fs ?match = (svc_ws_found, Inr [''api''])"
    by (simp only: a1)
  from workloadNames_enumerates [OF c2 d2, of line_yaml ?match] f2 s2
  have r2: "workloadNames line_yaml svc_ws corrupt_fs ?match =
      (svc_ws_found, Inl (CodecError ''yaml: unmarshal errors''))"
    by blast
  from workloadNames_enumerates [OF c3 d3, of line_yaml ?match] f3 s3
  have r3: "workloadNames line_yaml svc_ws unread_fs ?match =
      (svc_ws_found, Inl (Wrapped (ReadManifestForWorkload ''db'') (PathError EACCES)))"
    by blast
  from r1 r2 r3 show ?thesis by (simp only: ServiceNames_def)
qed

section \<open>Discovering Dockerfiles\<close>

lemma split_sep_plain: "CHR ''/'' \<notin> set n \<Longrightarrow> split_sep n = [n]"
  by (induction n) auto

lemma Join_plain: "plain_name n \<Longrightarrow> filepath_Join p [n] = p @ [n]"
  by (simp add: plain_name_def filepath_Join_def split_sep_plain push_elem_def)

lemma ReadDir_distinct:
  assumes "ReadDir fs p = Inr sub"
  shows "distinct (map fst sub)"
proof -
  from assms have "sub = map (\<lambda>n. (n, is_dir_at fs (p @ [n]))) (child_names fs p)"
    by (auto simp: ReadDir_def split: sum.splits node.splits if_splits)
  then have "map fst sub = child_names fs p" by (simp add: comp_def)
  then show ?thesis by (simp add: child_names_def)
qed

lemma scanSubFiles_distinct:
  "distinct (map fst sub) \<Longrightarrow>
     scanSubFiles sub n dirs = dirs @ (if (dockerfileName, False) \<in> set sub then [n] else [])"
proof (induction sub arbitrary: dirs)
  case Nil
  show ?case by simp
next
  case (Cons f sub)
  from Cons.prems have d: "distinct (map fst sub)" and nf: "fst f \<notin> fst ` set sub" by simp_all
  note IH = Cons.IH [OF d]
  show ?case
  proof (cases f)
    case (Pair m isDir)
    show ?thesis
    proof (cases "\<not> isDir \<and> m = dockerfileName")
      case True
      with nf Pair have "(dockerfileName, False) \<notin> set sub" by force
      with True show ?thesis by (simp add: Pair IH)
    next
      case False
      then show ?thesis by (auto simp: Pair IH)
    qed
  qed
qed

lemma rel_Dir_dockerfileName: "rel_Dir dockerfileName = ''.''"
  by (simp add: rel_Dir_def dockerfileName_def)

lemma scan_step_file:
  "scanWdFiles fs ((n, False) # wdFiles) dirs =
     scanWdFiles fs wdFiles (dirs @ (if n = dockerfileName then [''.''] else []))"
  by (simp add: rel_Dir_dockerfileName)

lemma scan_step_dir:
  assumes "cwd fs = wd" and "plain_name n"
  shows "scanWdFiles fs ((n, True) # wdFiles) dirs =
     (case ReadDir fs (wd @ [n]) of
        Inl e \<Rightarrow> Inl (Wrapped ReadDirectory (PathError e))
      | Inr sub \<Rightarrow>
          scanWdFiles fs wdFiles
            (dirs @ (if (dockerfileName, False) \<in> set sub then [n] else [])))"
proof (cases "ReadDir fs (wd @ [n])")
  case (Inl e)
  with assms show ?thesis by (simp add: abs_path_def Join_plain)
next
  case (Inr sub)
  from scanSubFiles_distinct [OF ReadDir_distinct [OF Inr], of n dirs] Inr assms
  show ?thesis by (simp add: abs_path_def Join_plain)
qed

lemma scan_all_listable:
  assumes "cwd fs = wd"
  shows "list_all (\<lambda>f. plain_name (fst f)) wdFiles \<Longrightarrow>
     list_all (sub_listable fs wd) wdFiles \<Longrightarrow>
     scanWdFiles fs wdFiles dirs = Inr (dirs @ qualifying_dirs fs wd wdFiles)"
proof (induction wdFiles arbitrary: dirs)
  case Nil
  show ?case by (simp add: qualifying_dirs_def)
next
  case (Cons f wdFiles)
  from Cons.prems have pn: "plain_name (fst f)" and ok: "sub_listable fs wd f"
    and rest: "list_all (\<lambda>f. plain_name (fst f)) wdFiles" "list_all (sub_listable fs wd) wdFiles"
    by simp_all
  note IH = Cons.IH [OF rest]
  have q: "qualifying_dirs fs wd (f # wdFiles) =
      (if snd f
       then (case ReadDir fs (wd @ [fst f]) of
               Inr sub \<Rightarrow> if (dockerfileName, False) \<in> set sub then [fst f] else []
             | Inl _ \<Rightarrow> [])
       else if fst f = dockerfileName then [''.''] else []) @ qualifying_dirs fs wd wdFiles"
    by (simp add: qualifying_dirs_def)
  show ?case
  proof (cases f)
    case (Pair n isDir)
    show ?thesis
    proof (cases isDir)
      case False
      with Pair have f': "f = (n, False)" by simp
      show ?thesis
        unfolding q unfolding f' scan_step_file IH by simp
    next
      case True
      with Pair have f': "f = (n, True)" by simp
      from pn Pair have pn': "plain_name n" by simp
      from ok f' obtain sub where sub: "ReadDir fs (wd @ [n]) = Inr sub"
        by (auto simp: sub_listable_def split: sum.splits)
      show ?thesis
        unfolding q unfolding f' scan_step_dir [OF assms pn'] sub
        by (simp add: IH sub)
    qed
  qed
qed

lemma scan_first_failure:
  assumes "cwd fs = wd"
  shows "list_all (\<lambda>f. plain_name (fst f)) (pre @ [(n, True)]) \<Longrightarrow>
     list_all (sub_listable fs wd) pre \<Longrightarrow> ReadDir fs (wd @ [n]) = Inl e \<Longrightarrow>
     scanWdFiles fs (pre @ (n, True) # post) dirs = Inl (Wrapped ReadDirectory (PathError e))"
proof (induction pre arbitrary: dirs)
  case Nil
  then have "plain_name n" by simp
  from scan_step_dir [OF assms this, of post dirs] Nil.prems(3) show ?case by simp
next
  case (Cons f pre)
  from Cons.prems have pn: "plain_name (fst f)" and ok: "sub_listable fs wd f"
    and rest: "list_all (\<lambda>f. plain_name (fst f)) (pre @ [(n, True)])"
      "list_all (sub_listable fs wd) pre"
    by simp_all
  note IH = Cons.IH [OF rest Cons.prems(3)]
  show ?case
  proof (cases f)
    case (Pair m isDir)
    show ?thesis
    proof (cases isDir)
      case False
      with Pair have f': "f = (m, False)" by simp
      show ?thesis
        unfolding f' append_Cons scan_step_file by (rule IH)
    next
      case True
      with Pair have f': "f = (m, True)" by simp
      from pn Pair have pn': "plain_name m" by simp
      from ok f' obtain sub where sub: "ReadDir fs (wd @ [m]) = Inr sub"
        by (auto simp: sub_listable_def split: sum.splits)
      show ?thesis
        unfolding f' append_Cons scan_step_dir [OF assms pn'] sub
        by (simp add: IH)
    qed
  qed
qed

text \<open>
  C6. Let the process working directory be the invocation directory.
  \<open>ListDockerfiles\<close> reads the listing of the invocation directory and the listing of
  each of its immediate sub-directories, and nothing else. When all these listings
  can be read, it returns the qualifying directories sorted ascending, each rendered
  as \<open>dir/Dockerfile\<close> (the invocation directory as \<open>./Dockerfile\<close>), and fails with
  the Dockerfile-not-found error for the invocation directory when none qualifies.
  When the invocation directory or a sub-directory cannot be listed, it fails with
  that error wrapped as a read-directory error.
\<close>

theorem ListDockerfiles_two_levels:
  assumes "cwd fs = workingDir ws"
  shows "(\<forall>e. ReadDir fs (workingDir ws) = Inl e \<longrightarrow>
            ListDockerfiles ws fs = Inl (Wrapped ReadDirectory (PathError e))) \<and>
         (\<forall>wdFiles.
            ReadDir fs (workingDir ws) = Inr wdFiles \<and>
            list_all (\<lambda>f. plain_name (fst f)) wdFiles \<and>
            list_all (sub_listable fs (workingDir ws)) wdFiles \<longrightarrow>
            ListDockerfiles ws fs =
              (if qualifying_dirs fs (workingDir ws) wdFiles = []
               then Inl (ErrDockerfileNotFound (workingDir ws))
               else Inr (map (\<lambda>dir. dir @ ''/Dockerfile'')
                          (sort (qualifying_dirs fs (workingDir ws) wdFiles))))) \<and>
         (\<forall>pre n post e.
            ReadDir fs (workingDir ws) = Inr (pre @ (n, True) # post) \<and>
            list_all (\<lambda>f. plain_name (fst f)) (pre @ [(n, True)]) \<and>
            list_all (sub_listable fs (workingDir ws)) pre \<and>
            ReadDir fs (workingDir ws @ [n]) = Inl e \<longrightarrow>
            ListDockerfiles ws fs = Inl (Wrapped ReadDirectory (PathError e)))"
proof -
  let ?wd = "workingDir ws"
  have top: "ListDockerfiles ws fs = Inl (Wrapped ReadDirectory (PathError e))"
    if "ReadDir fs ?wd = Inl e" for e
    using that by (simp add: ListDockerfiles_def)
  have scan: "ListDockerfiles ws fs =
      (if qualifying_dirs fs ?wd wdFiles = [] then Inl (ErrDockerfileNotFound ?wd)
       else Inr (map (\<lambda>dir. dir @ ''/Dockerfile'') (sort (qualifying_dirs fs ?wd wdFiles))))"
    if "ReadDir fs ?wd = Inr wdFiles" and "list_all (\<lambda>f. plain_name (fst f)) wdFiles"
      and "list_all (sub_listable fs ?wd) wdFiles" for wdFiles
    using that(1) scan_all_listable [OF assms that(2,3), of "[]"]
    by (simp add: ListDockerfiles_def dockerfileName_def)
  have sub: "ListDockerfiles ws fs = Inl (Wrapped ReadDirectory (PathError e))"
    if "ReadDir fs ?wd = Inr (pre @ (n, True) # post)"
      and "list_all (\<lambda>f. plain_name (fst f)) (pre @ [(n, True)])"
      and "list_all (sub_listable fs ?wd) pre" and "ReadDir fs (?wd @ [n]) = Inl e"
    for pre n post e
    using that(1) scan_first_failure [OF assms that(2,3,4), of post "[]"]
    by (simp add: ListDockerfiles_def)
  from top scan sub show ?thesis by blast
qed

text \<open>When a sub-directory cannot be listed and no directory in scope holds a
  Dockerfile, the error is the read-directory error, not the Dockerfile-not-found
  error.\<close>

theorem ListDockerfiles_unlistable_counterexample:
  "node_at secret_fs [''app'', ''Dockerfile''] = None \<and>
   ReadDir secret_fs [''app''] = Inr [(''main.go'', False), (''secret'', True), (''src'', True)] \<and>
   node_at secret_fs [''app'', ''secret'', ''Dockerfile''] = None \<and>
   node_at secret_fs [''app'', ''src'', ''Dockerfile''] = None \<and>
   ListDockerfiles app_ws secret_fs = Inl (Wrapped ReadDirectory (PathError EACCES))"
  by code_simp

theorem ListDockerfiles_two_levels_witness:
  "ListDockerfiles app_ws docker_fs =
     Inr [''./Dockerfile'', ''a/Dockerfile'', ''a-b/Dockerfile'', ''sub1/Dockerfile''] \<and>
   ListDockerfiles app_ws plain_fs = Inl (ErrDockerfileNotFound [''app'']) \<and>
   ListDockerfiles app_ws secret_fs = Inl (Wrapped ReadDirectory (PathError EACCES)) \<and>
   ListDockerfiles app_ws gone_fs = Inl (Wrapped ReadDirectory (PathError ENOENT))"
proof -
  let ?wd = "workingDir app_ws"
  let ?files1 = "[(''Dockerfile'', False), (''a'', True), (''a-b'', True), (''sub1'', True),
      (''sub2'', True)]"
  let ?files2 = "[(''main.go'', False), (''src'', True)]"
  have wd: "?wd = [''app'']" by code_simp
  have c1: "cwd docker_fs = ?wd" and c2: "cwd plain_fs = ?wd" and c3: "cwd secret_fs = ?wd"
    by code_simp+
  have d1: "ReadDir docker_fs ?wd = Inr ?files1" by code_simp
  have p1: "list_all (\<lambda>f. plain_name (fst f)) ?files1" by code_simp
  have l1: "list_all (sub_listable docker_fs ?wd) ?files1" by code_simp
  have q1: "qualifying_dirs docker_fs ?wd ?files1 = [''.'', ''a'', ''a-b'', ''sub1'']" by code_simp
  have s1: "map (\<lambda>dir. dir @ ''/Dockerfile'') (sort [''.'', ''a'', ''a-b'', ''sub1'']) =
      [''./Dockerfile'', ''a/Dockerfile'', ''a-b/Dockerfile'', ''sub1/Dockerfile'']" by code_simp
  have d2: "ReadDir plain_fs ?wd = Inr ?files2" by code_simp
  have p2: "list_all (\<lambda>f. plain_name (fst f)) ?files2" by code_simp
  have l2: "list_all (sub_listable plain_fs ?wd) ?files2" by code_simp
  have q2: "qualifying_dirs plain_fs ?wd ?files2 = []" by code_simp
  have d3: "ReadDir secret_fs ?wd = Inr ([(''main.go'', False)] @ (''secret'', True) # [(''src'', True)])"
    by code_simp
  have p3: "list_all (\<lambda>f. plain_name (fst f)) ([(''main.go'', False)] @ [(''secret'', True)])"
    by code_simp
  have l3: "list_all (sub_listable secret_fs ?wd) [(''main.go'', False)]" by code_simp
  have e3: "ReadDir secret_fs (?wd @ [''secret'']) = Inl EACCES" by code_simp
  from ListDockerfiles_two_levels [OF c1] d1 p1 l1
  have "ListDockerfiles app_ws docker_fs =
      (if qualifying_dirs docker_fs ?wd ?files1 = [] then Inl (ErrDockerfileNotFound ?wd)
       else Inr (map (\<lambda>dir. dir @ ''/Dockerfile'') (sort (qualifying_dirs docker_fs ?wd ?files1))))"
    by blast
  then have r1: "ListDockerfiles app_ws docker_fs =
      Inr [''./Dockerfile'', ''a/Dockerfile'', ''a-b/Dockerfile'', ''sub1/Dockerfile'']"
    unfolding q1 s1 by simp
  from ListDockerfiles_two_levels [OF c2] d2 p2 l2
  have "ListDockerfiles app_ws plain_fs =
      (if qualifying_dirs plain_fs ?wd ?files2 = [] then Inl (ErrDockerfileNotFound ?wd)
       else Inr (map (\<lambda>dir. dir @ ''/Dockerfile'') (sort (qualifying_dirs plain_fs ?wd ?files2))))"
    by blast
  then have r2: "ListDockerfiles app_ws plain_fs = Inl (ErrDockerfileNotFound [''app''])"
    using q2 by (simp add: wd)
  from ListDockerfiles_two_levels [OF c3] d3 p3 l3 e3
  have r3: "ListDockerfiles app_ws secret_fs = Inl (Wrapped ReadDirectory (PathError EACCES))"
    by blast
  have c4: "cwd gone_fs = ?wd" and e4: "ReadDir gone_fs ?wd = Inl ENOENT" by code_simp+
  from ListDockerfiles_two_levels [OF c4] e4
  have r4: "ListDockerfiles app_ws gone_fs = Inl (Wrapped ReadDirectory (PathError ENOENT))"
    by blast
  from r1 r2 r3 r4 show ?thesis by simp
qed

end
